theory Spec2Isabelle
  imports Main
begin

section \<open>Python values\<close>

text \<open>
  The webhook handlers work on parsed JSON, which in Python is dynamically typed: a
  payload, an entry or a change may be any JSON value, and \<^verbatim>\<open>x.get(...)\<close>,
  \<^verbatim>\<open>len(x)\<close> and \<^verbatim>\<open>for y in x\<close> raise when \<open>x\<close> has the wrong type.
  A finite float is kept as mantissa and exponent; only whether it is zero matters here.
  A parsed object is an association list (the parser keeps one value per key).
\<close>

datatype pyfloat = Finite int int | Infinity bool | NaN

datatype json =
    JNull
  | JBool bool
  | JInt int
  | JFloat pyfloat
  | JStr string
  | JArr "json list"
  | JObj "(string \<times> json) list"

datatype pyexc =
    AttributeError string
  | TypeError string
  | ValidationError string
  | OverflowError string
  | BadRequest string
  | OtherError string

text \<open>\<^verbatim>\<open>str(e)\<close> of an exception: its message.\<close>

fun str_exc :: "pyexc \<Rightarrow> string" where
  "str_exc (AttributeError m) = m"
| "str_exc (TypeError m) = m"
| "str_exc (ValidationError m) = m"
| "str_exc (OverflowError m) = m"
| "str_exc (BadRequest m) = m"
| "str_exc (OtherError m) = m"

definition quote :: string where
  "quote = [CHR 0x27]"

fun type_name :: "json \<Rightarrow> string" where
  "type_name JNull = ''NoneType''"
| "type_name (JBool _) = ''bool''"
| "type_name (JInt _) = ''int''"
| "type_name (JFloat _) = ''float''"
| "type_name (JStr _) = ''str''"
| "type_name (JArr _) = ''list''"
| "type_name (JObj _) = ''dict''"

text \<open>Truth value of a Python object, as \<^verbatim>\<open>not payload\<close> tests it.\<close>

fun truthy :: "json \<Rightarrow> bool" where
  "truthy JNull = False"
| "truthy (JBool b) = b"
| "truthy (JInt i) = (i \<noteq> 0)"
| "truthy (JFloat (Finite m e)) = (m \<noteq> 0)"
| "truthy (JFloat _) = True"
| "truthy (JStr s) = (s \<noteq> [])"
| "truthy (JArr xs) = (xs \<noteq> [])"
| "truthy (JObj kvs) = (kvs \<noteq> [])"

text \<open>\<^verbatim>\<open>not s\<close> for a field that holds a string or \<^verbatim>\<open>None\<close>.\<close>

fun truthy_str :: "string option \<Rightarrow> bool" where
  "truthy_str None = False"
| "truthy_str (Some s) = (s \<noteq> [])"

text \<open>\<^verbatim>\<open>obj.get(key, default)\<close>: only a dict has \<^verbatim>\<open>get\<close>.\<close>

definition py_get :: "json \<Rightarrow> string \<Rightarrow> json \<Rightarrow> pyexc + json" where
  "py_get obj k d =
     (case obj of
        JObj kvs \<Rightarrow> Inr (case map_of kvs k of Some v \<Rightarrow> v | None \<Rightarrow> d)
      | _ \<Rightarrow> Inl (AttributeError
                 (quote @ type_name obj @ quote @ '' object has no attribute '' @ quote @ ''get'' @ quote)))"

text \<open>\<^verbatim>\<open>len(x)\<close>.\<close>

definition py_len :: "json \<Rightarrow> pyexc + nat" where
  "py_len x =
     (case x of
        JArr xs \<Rightarrow> Inr (length xs)
      | JObj kvs \<Rightarrow> Inr (length kvs)
      | JStr s \<Rightarrow> Inr (length s)
      | _ \<Rightarrow> Inl (TypeError (''object of type '' @ quote @ type_name x @ quote @ '' has no len()'')))"

text \<open>
  \<^verbatim>\<open>for y in x\<close>: the elements of a list, the keys of a dict, the characters of a
  string; anything else is not iterable.
\<close>

definition py_iter :: "json \<Rightarrow> pyexc + json list" where
  "py_iter x =
     (case x of
        JArr xs \<Rightarrow> Inr xs
      | JObj kvs \<Rightarrow> Inr (map (\<lambda>kv. JStr (fst kv)) kvs)
      | JStr s \<Rightarrow> Inr (map (\<lambda>c. JStr [c]) s)
      | _ \<Rightarrow> Inl (TypeError (quote @ type_name x @ quote @ '' object is not iterable'')))"

definition of_opt :: "string option \<Rightarrow> json" where
  "of_opt v = (case v of None \<Rightarrow> JNull | Some s \<Rightarrow> JStr s)"

text \<open>
  A formatted string keeps the structure of the source's f-string: literal text, and
  the values rendered by \<^verbatim>\<open>str\<close>, \<^verbatim>\<open>repr\<close> or \<^verbatim>\<open>json.dumps(_, indent=2)\<close>.
\<close>

datatype frag = Lit string | Str json | Repr json | Dumps json

type_synonym fstring = "frag list"

section \<open>The site: settings, documents, logs, responses\<close>

datatype level = INFO | WARNING | ERROR

text \<open>
  The \<^verbatim>\<open>expiry\<close> argument of \<^verbatim>\<open>set_access_token\<close>: an \<^verbatim>\<open>int\<close> of seconds
  (\<^verbatim>\<open>True\<close> and \<^verbatim>\<open>False\<close> are the ints 1 and 0), a \<^verbatim>\<open>str\<close>, or a
  \<^verbatim>\<open>datetime\<close>, written as its text.
\<close>

datatype expiry = Seconds int | Text string | Datetime string

text \<open>The singleton \<^verbatim>\<open>Facebook Lead Ads Settings\<close>; a Check field holds 0 or 1.\<close>

record settings =
  enabled :: int
  app_id :: "string option"
  app_secret :: "string option"
  access_token :: "string option"
  token_expiry :: "string option"
  webhook_verify_token :: "string option"
  webhook_callback_url :: "string option"
  webhook_is_active :: int

text \<open>The document \<^verbatim>\<open>create_facebook_lead\<close> builds; \<open>name\<close> is given at insert.\<close>

record lead =
  name :: "string option"
  lead_id :: fstring
  status :: string
  facebook_lead_id :: json
  facebook_form_id :: json
  facebook_page_id :: json
  facebook_ad_id :: json
  facebook_adset_id :: json
  lead_data :: fstring
  created_at :: string

text \<open>A call of \<^verbatim>\<open>creqit.publish_realtime(event=, message=, user=)\<close>.\<close>

record realtime_event =
  event :: string
  message :: json
  user :: string

text \<open>A \<^verbatim>\<open>Facebook Lead Ads Webhook\<close> document; its fields carry the prefix \<open>wh_\<close>.\<close>

record webhook =
  wh_webhook_name :: "string option"
  wh_enabled :: int
  wh_page_id :: "string option"
  wh_form_id :: "string option"
  wh_verify_token :: "string option"
  wh_webhook_url :: "string option"
  wh_is_active :: int
  wh_subscription_id :: json
  wh_lead_count :: "int option"
  wh_last_lead_received :: "string option"

text \<open>The calls to the external platform made through \<^verbatim>\<open>FacebookLeadAds.utils\<close>.\<close>

datatype api_call =
    CreateSubscription "string option" "string option" "string option" "string list" bool
  | InstallApp "string option" string
  | DeleteSubscription "string option" string

datatype db_write = InsertLead lead | SaveSettings settings | SaveWebhook webhook

text \<open>
  Everything a request can read or change. The framework and the platform are outside
  the modules modelled here; what they answer is a field of the site:
  \<^item> \<open>db_error w\<close>: the exception the document store raises on the write \<open>w\<close>, if any;
  \<^item> \<open>new_name\<close>: the name the store gives an inserted lead;
  \<^item> \<open>time_source\<close>, \<open>now_calls\<close>: \<^verbatim>\<open>creqit.utils.now()\<close> returns
    \<open>time_source now_calls\<close> and counts the call;
  \<^item> \<open>generate_hash\<close>: what \<^verbatim>\<open>creqit.generate_hash(length=n)\<close> returns;
  \<^item> \<open>expiry_after n\<close>: what \<^verbatim>\<open>datetime.now() + timedelta(seconds=n)\<close> gives, a time
    or the \<^verbatim>\<open>OverflowError\<close> Python raises when \<open>n\<close> or the sum is out of range;
  \<^item> \<open>get_url\<close>: \<^verbatim>\<open>creqit.utils.get_url()\<close>;
  \<^item> \<open>api_create\<close>, \<open>api_install\<close>, \<open>api_delete\<close>: the outcomes of the platform calls.
  \<open>doctype_facebook_lead\<close> says whether the DocType \<^verbatim>\<open>Facebook Lead\<close> exists,
  \<open>leads\<close> is its table, \<open>stored_webhook\<close> the persisted webhook document under study.
\<close>

record site =
  the_settings :: settings
  doctype_facebook_lead :: bool
  leads :: "lead list"
  stored_webhook :: "webhook option"
  db_error :: "db_write \<Rightarrow> pyexc option"
  new_name :: "lead \<Rightarrow> string"
  realtime :: "realtime_event list"
  session_user :: string
  time_source :: "nat \<Rightarrow> string"
  now_calls :: nat
  generate_hash :: "nat \<Rightarrow> string"
  expiry_after :: "int \<Rightarrow> pyexc + string"
  get_url :: string
  api_create :: "api_call \<Rightarrow> pyexc + json"
  api_install :: "api_call \<Rightarrow> pyexc option"
  api_delete :: "api_call \<Rightarrow> pyexc option"
  api_calls :: "api_call list"
  meta_log :: "(level \<times> fstring) list"
  app_log :: "(level \<times> fstring) list"
  error_log :: "string list"
  msgprints :: "string list"
  status_code :: "nat option"
  web_page :: "(string \<times> fstring \<times> bool) option"

text \<open>\<^verbatim>\<open>meta_logger.info/warning/error\<close> and \<^verbatim>\<open>creqit.logger().info/warning/error\<close>.\<close>

definition meta_logger :: "level \<Rightarrow> fstring \<Rightarrow> site \<Rightarrow> site" where
  "meta_logger l m s = s\<lparr>meta_log := meta_log s @ [(l, m)]\<rparr>"

definition logger :: "level \<Rightarrow> fstring \<Rightarrow> site \<Rightarrow> site" where
  "logger l m s = s\<lparr>app_log := app_log s @ [(l, m)]\<rparr>"

text \<open>A message written to both logs, the meta log first.\<close>

definition log_both :: "level \<Rightarrow> fstring \<Rightarrow> site \<Rightarrow> site" where
  "log_both l m s = logger l m (meta_logger l m s)"

definition utils_now :: "site \<Rightarrow> string \<times> site" where
  "utils_now s = (time_source s (now_calls s), s\<lparr>now_calls := Suc (now_calls s)\<rparr>)"

definition publish_realtime :: "string \<Rightarrow> json \<Rightarrow> string \<Rightarrow> site \<Rightarrow> site" where
  "publish_realtime ev msg u s =
     s\<lparr>realtime := realtime s @ [\<lparr>event = ev, message = msg, user = u\<rparr>]\<rparr>"

definition set_status :: "nat \<Rightarrow> site \<Rightarrow> site" where
  "set_status n s = s\<lparr>status_code := Some n\<rparr>"

text \<open>\<^verbatim>\<open>creqit.respond_as_web_page(title, html, success=False)\<close>.\<close>

definition respond_as_web_page :: "string \<Rightarrow> fstring \<Rightarrow> bool \<Rightarrow> site \<Rightarrow> site" where
  "respond_as_web_page title html success s = s\<lparr>web_page := Some (title, html, success)\<rparr>"

text \<open>
  \<^verbatim>\<open>creqit.db.exists("Facebook Lead", {"facebook_lead_id": leadgen_id})\<close>: some
  stored lead has this external id.
\<close>

definition db_exists_lead :: "json \<Rightarrow> site \<Rightarrow> bool" where
  "db_exists_lead leadgen_id s = (leadgen_id \<in> set (map facebook_lead_id (leads s)))"

text \<open>
  Modelled from the spec: \<^verbatim>\<open>Document.insert\<close> of the framework
  (\<^verbatim>\<open>creqit.model.document\<close>, outside the modules modelled here) followed by \<^verbatim>\<open>creqit.db.commit()\<close>. The store either raises or
  names the document and appends it to the table.
\<close>

definition insert_lead :: "lead \<Rightarrow> site \<Rightarrow> pyexc + (lead \<times> site)" where
  "insert_lead doc s =
     (case db_error s (InsertLead doc) of
        Some e \<Rightarrow> Inl e
      | None \<Rightarrow>
          (let d = doc\<lparr>name := Some (new_name s doc)\<rparr>
           in Inr (d, s\<lparr>leads := leads s @ [d]\<rparr>)))"

section \<open>Lead ingestion (webhook.py)\<close>

text \<open>The \<^verbatim>\<open>except Exception as e\<close> branch of \<^verbatim>\<open>create_facebook_lead\<close>.\<close>

definition create_failed :: "pyexc \<Rightarrow> site \<Rightarrow> site" where
  "create_failed e s =
     log_both ERROR [Lit ''Failed to create Facebook Lead: '', Lit (str_exc e)] s"

text \<open>
  \<^verbatim>\<open>create_facebook_lead(leadgen_id, page_id, form_id, webhook_data)\<close>: the whole
  body is inside \<^verbatim>\<open>try\<close>, so the function returns normally on every path.
\<close>

definition create_facebook_lead :: "json \<Rightarrow> json \<Rightarrow> json \<Rightarrow> json \<Rightarrow> site \<Rightarrow> site" where
  "create_facebook_lead leadgen_id page_id form_id webhook_data s =
     (if \<not> doctype_facebook_lead s then
        log_both WARNING [Lit ''Facebook Lead DocType not found, skipping lead creation''] s
      else if db_exists_lead leadgen_id s then
        log_both INFO [Lit ''Facebook Lead '', Str leadgen_id, Lit '' already exists, skipping''] s
      else
        (case py_get webhook_data ''ad_id'' JNull of
           Inl e \<Rightarrow> create_failed e s
         | Inr ad_id \<Rightarrow>
        (case py_get webhook_data ''adset_id'' JNull of
           Inl e \<Rightarrow> create_failed e s
         | Inr adset_id \<Rightarrow>
        (case utils_now s of (now, s1) \<Rightarrow>
        (case insert_lead
                \<lparr>name = None,
                 lead_id = [Lit ''FB-'', Str leadgen_id],
                 status = ''New'',
                 facebook_lead_id = leadgen_id,
                 facebook_form_id = form_id,
                 facebook_page_id = page_id,
                 facebook_ad_id = ad_id,
                 facebook_adset_id = adset_id,
                 lead_data = [Dumps webhook_data],
                 created_at = now\<rparr> s1 of
           Inl e \<Rightarrow> create_failed e s1
         | Inr (lead_doc, s2) \<Rightarrow>
             log_both INFO [Lit ''Created Facebook Lead '', Str (of_opt (name lead_doc)),
                            Lit '' for lead '', Str leadgen_id] s2)))))"

text \<open>
  The body of the loop over \<^verbatim>\<open>changes\<close> in \<^verbatim>\<open>process_entry\<close>. The result is the
  exception raised, if any, and the site as it is at that point.
\<close>

definition process_change :: "json \<Rightarrow> site \<Rightarrow> pyexc option \<times> site" where
  "process_change change s =
     (case py_get change ''field'' JNull of
        Inl e \<Rightarrow> (Some e, s)
      | Inr field \<Rightarrow>
          if field \<noteq> JStr ''leadgen'' then
            (None, meta_logger INFO [Lit ''Skipping non-leadgen change: '', Str field] s)
          else
            (case py_get change ''value'' (JObj []) of
               Inl e \<Rightarrow> (Some e, s)
             | Inr val \<Rightarrow>
            (case py_get val ''page_id'' JNull of
               Inl e \<Rightarrow> (Some e, s)
             | Inr page_id \<Rightarrow>
            (case py_get val ''form_id'' JNull of
               Inl e \<Rightarrow> (Some e, s)
             | Inr form_id \<Rightarrow>
            (case py_get val ''leadgen_id'' JNull of
               Inl e \<Rightarrow> (Some e, s)
             | Inr leadgen_id \<Rightarrow>
                 (let s1 = meta_logger INFO [Lit ''Received lead '', Str leadgen_id,
                             Lit '' from page '', Str page_id, Lit '', form '', Str form_id] s;
                      s2 = meta_logger INFO [Lit ''Lead data: '', Dumps val] s1;
                      s3 = create_facebook_lead leadgen_id page_id form_id val s2
                  in case utils_now s3 of (now, s4) \<Rightarrow>
                       (None,
                        publish_realtime ''facebook_lead_received''
                          (JObj [(''leadgen_id'', leadgen_id), (''page_id'', page_id),
                                 (''form_id'', form_id), (''timestamp'', JStr now)])
                          (session_user s4) s4)))))))"

text \<open>\<^verbatim>\<open>for change in changes\<close>: the first exception ends the loop.\<close>

fun process_changes :: "json list \<Rightarrow> site \<Rightarrow> pyexc option \<times> site" where
  "process_changes [] s = (None, s)"
| "process_changes (change # changes) s =
     (case process_change change s of
        (Some e, s1) \<Rightarrow> (Some e, s1)
      | (None, s1) \<Rightarrow> process_changes changes s1)"

definition process_entry :: "json \<Rightarrow> site \<Rightarrow> pyexc option \<times> site" where
  "process_entry entry s =
     (case py_get entry ''id'' JNull of
        Inl e \<Rightarrow> (Some e, s)
      | Inr entry_id \<Rightarrow>
     (case py_get entry ''changes'' (JArr []) of
        Inl e \<Rightarrow> (Some e, s)
      | Inr changes \<Rightarrow>
     (case py_len changes of
        Inl e \<Rightarrow> (Some e, s)
      | Inr n \<Rightarrow>
          (let s1 = meta_logger INFO [Lit ''Processing entry '', Str entry_id, Lit '' with '',
                      Str (JInt (int n)), Lit '' changes''] s
           in case py_iter changes of
                Inl e \<Rightarrow> (Some e, s1)
              | Inr cs \<Rightarrow> process_changes cs s1))))"

text \<open>\<^verbatim>\<open>for entry in payload.get("entry", [])\<close> in \<^verbatim>\<open>handle_lead_event\<close>.\<close>

fun process_entries :: "json list \<Rightarrow> site \<Rightarrow> pyexc option \<times> site" where
  "process_entries [] s = (None, s)"
| "process_entries (entry # entries) s =
     (case process_entry entry s of
        (Some e, s1) \<Rightarrow> (Some e, s1)
      | (None, s1) \<Rightarrow> process_entries entries s1)"

text \<open>The dict a handler returns: \<^verbatim>\<open>{"success": True}\<close> or \<^verbatim>\<open>{"error": msg}\<close>.\<close>

datatype envelope = Success | Error string

text \<open>The \<^verbatim>\<open>except Exception as e\<close> branch of \<^verbatim>\<open>handle_lead_event\<close>.\<close>

definition lead_event_failed :: "pyexc \<Rightarrow> site \<Rightarrow> envelope \<times> site" where
  "lead_event_failed e s =
     (Error (str_exc e),
      set_status 500
        (log_both ERROR [Lit ''Facebook Lead Event Processing Error: '', Lit (str_exc e)] s))"

text \<open>
  \<^verbatim>\<open>handle_lead_event()\<close>. Its input is what \<^verbatim>\<open>creqit.request.get_json()\<close> gives:
  the exception it raises on a body it does not decode, or the parsed body, \<open>JNull\<close>
  being Python's \<^verbatim>\<open>None\<close>. The call stands inside the \<^verbatim>\<open>try\<close>, so the exception
  is answered by the \<^verbatim>\<open>except\<close> branch.
\<close>

definition handle_lead_event :: "pyexc + json \<Rightarrow> site \<Rightarrow> envelope \<times> site" where
  "handle_lead_event body s =
     (case body of
        Inl e \<Rightarrow> lead_event_failed e s
      | Inr payload \<Rightarrow>
          (let s1 = meta_logger INFO [Lit ''Facebook Lead Event Payload: '', Dumps payload] s
           in if \<not> truthy payload then
                (Error ''Invalid payload'',
                 set_status 400 (meta_logger ERROR [Lit ''Invalid payload received''] s1))
              else
                (case py_get payload ''object'' JNull of
                   Inl e \<Rightarrow> lead_event_failed e s1
                 | Inr obj \<Rightarrow>
                     if obj \<noteq> JStr ''page'' then
                       (Success,
                        set_status 200
                          (meta_logger INFO [Lit ''Non-page event received: '', Str obj] s1))
                     else
                       (case py_get payload ''entry'' (JArr []) of
                          Inl e \<Rightarrow> lead_event_failed e s1
                        | Inr ent \<Rightarrow>
                       (case py_iter ent of
                          Inl e \<Rightarrow> lead_event_failed e s1
                        | Inr entries \<Rightarrow>
                       (case process_entries entries s1 of
                          (Some e, s2) \<Rightarrow> lead_event_failed e s2
                        | (None, s2) \<Rightarrow>
                            (Success,
                             set_status 200
                               (meta_logger INFO
                                  [Lit ''Facebook Lead Event processed successfully''] s2))))))))"

section \<open>Settings (facebook_lead_ads_settings.py)\<close>

text \<open>\<^verbatim>\<open>FacebookLeadAdsSettings.validate\<close>; \<^verbatim>\<open>creqit.throw\<close> raises.\<close>

definition settings_validate :: "settings \<Rightarrow> pyexc option" where
  "settings_validate d =
     (if enabled d \<noteq> 0 then
        (if \<not> truthy_str (app_id d) then
           Some (ValidationError ''App ID is required when Facebook Lead Ads is enabled'')
         else if \<not> truthy_str (app_secret d) then
           Some (ValidationError ''App Secret is required when Facebook Lead Ads is enabled'')
         else None)
      else None)"

text \<open>
  Modelled from the spec: \<^verbatim>\<open>Document.save\<close> of the framework
  (\<^verbatim>\<open>creqit.model.document\<close>, outside the modules modelled here) on the settings singleton. It runs \<^verbatim>\<open>validate\<close> unless
  \<^verbatim>\<open>flags.ignore_validate\<close> is set, and only then writes the document.
\<close>

definition save_settings :: "bool \<Rightarrow> settings \<Rightarrow> site \<Rightarrow> pyexc + site" where
  "save_settings ignore_validate d s =
     (case (if ignore_validate then None else settings_validate d) of
        Some e \<Rightarrow> Inl e
      | None \<Rightarrow>
          (case db_error s (SaveSettings d) of
             Some e \<Rightarrow> Inl e
           | None \<Rightarrow> Inr (s\<lparr>the_settings := d\<rparr>)))"

text \<open>
  \<^verbatim>\<open>set_access_token(token, expiry=None)\<close>, on the document \<open>d\<close>. The expiry is
  stored only when it counts as true: a number of seconds other than 0, a \<^verbatim>\<open>str\<close>
  that is not empty, any \<^verbatim>\<open>datetime\<close>. Seconds are first turned into the time
  \<^verbatim>\<open>datetime.now() + timedelta(seconds=expiry)\<close>; when that raises, nothing is saved.
  The save sets \<^verbatim>\<open>flags.ignore_validate\<close>.
\<close>

definition set_access_token ::
  "string option \<Rightarrow> expiry option \<Rightarrow> settings \<Rightarrow> site \<Rightarrow> pyexc + site" where
  "set_access_token token exp d s =
     (let d1 = d\<lparr>access_token := token\<rparr>
      in case exp of
           None \<Rightarrow> save_settings True d1 s
         | Some (Datetime w) \<Rightarrow> save_settings True (d1\<lparr>token_expiry := Some w\<rparr>) s
         | Some (Text w) \<Rightarrow>
             (if w = [] then save_settings True d1 s
              else save_settings True (d1\<lparr>token_expiry := Some w\<rparr>) s)
         | Some (Seconds n) \<Rightarrow>
             (if n = 0 then save_settings True d1 s
              else case expiry_after s n of
                     Inl e \<Rightarrow> Inl e
                   | Inr w \<Rightarrow> save_settings True (d1\<lparr>token_expiry := Some w\<rparr>) s))"

section \<open>Verification handshake and dispatch (webhook.py)\<close>

text \<open>What the handlers read of \<^verbatim>\<open>creqit.request\<close>.\<close>

record request =
  req_method :: string
  req_headers :: "(string \<times> string) list"
  req_args :: "(string \<times> string) list"
  req_remote_addr :: "string option"
  req_json :: "pyexc + json"

text \<open>\<^verbatim>\<open>creqit.request.args.get(key)\<close>.\<close>

definition args_get :: "request \<Rightarrow> string \<Rightarrow> string option" where
  "args_get r k = map_of (req_args r) k"

text \<open>
  What a handler returns: a \<^verbatim>\<open>werkzeug\<close> \<^verbatim>\<open>Response(body, status=, mimetype=)\<close>,
  a dict, or \<^verbatim>\<open>None\<close> (after \<^verbatim>\<open>respond_as_web_page\<close> has set the page).
\<close>

datatype retval = Response "string option" nat string | Envelope envelope | NoneVal

text \<open>\<^verbatim>\<open>len(t) if t else 0\<close>.\<close>

definition len_or_0 :: "string option \<Rightarrow> json" where
  "len_or_0 t = (case t of None \<Rightarrow> JInt 0 | Some x \<Rightarrow> JInt (int (length x)))"

definition handle_verification :: "request \<Rightarrow> site \<Rightarrow> (pyexc + retval) \<times> site" where
  "handle_verification r s =
     (let mode = args_get r ''hub.mode'';
          token = args_get r ''hub.verify_token'';
          challenge = args_get r ''hub.challenge'';
          s1 = meta_logger INFO
                 [Lit ''Facebook Webhook Verification: mode='', Str (of_opt mode),
                  Lit '', token='', Str (of_opt token),
                  Lit '', challenge='', Str (of_opt challenge)] s;
          st = the_settings s1;
          s2 = meta_logger INFO
                 [Lit ''Facebook Webhook Settings: enabled='', Str (JInt (enabled st)),
                  Lit '', verify_token='', Str (of_opt (webhook_verify_token st))] s1
      in if enabled st = 0 then
           (Inr NoneVal,
            respond_as_web_page ''Facebook Webhook Error''
              [Lit ''Facebook Lead Ads is not enabled''] False
              (log_both ERROR [Lit ''Facebook Lead Ads is not enabled''] s2))
         else
           (let expected_token = webhook_verify_token st;
                received_token = token;
                s3 = meta_logger INFO
                       [Lit ''Token comparison: expected_length='', Str (len_or_0 expected_token),
                        Lit '', received_length='', Str (len_or_0 received_token)] s2;
                s4 = meta_logger INFO
                       [Lit ''Expected token repr: '', Repr (of_opt expected_token)] s3;
                s5 = meta_logger INFO
                       [Lit ''Received token repr: '', Repr (of_opt received_token)] s4
            in if expected_token \<noteq> received_token then
                 (Inr NoneVal,
                  respond_as_web_page ''Facebook Webhook Error''
                    [Lit ''Invalid verify token. Expected: '', Str (of_opt expected_token),
                     Lit '', Received: '', Str (of_opt received_token)] False
                    (log_both ERROR
                       [Lit ''Token mismatch: expected='', Str (of_opt expected_token),
                        Lit '', received='', Str (of_opt received_token)] s5))
               else if mode = Some ''subscribe'' then
                 (case save_settings False (st\<lparr>webhook_is_active := 1\<rparr>) s5 of
                    Inl e \<Rightarrow> (Inl e, s5)
                  | Inr s6 \<Rightarrow>
                      (Inr (Response challenge 200 ''text/plain''),
                       log_both INFO
                         [Lit ''Facebook Webhook verified successfully with challenge: '',
                          Str (of_opt challenge)] s6))
               else
                 (Inr NoneVal,
                  respond_as_web_page ''Facebook Webhook Error'' [Lit ''Invalid mode''] False
                    (log_both ERROR [Lit ''Invalid mode: '', Str (of_opt mode)] s5))))"

text \<open>
  \<^verbatim>\<open>handle_webhook()\<close>: the endpoint. Whatever a handler raises is answered with
  status 500 and \<^verbatim>\<open>{"error": str(e)}\<close>.
\<close>

definition handle_webhook :: "request \<Rightarrow> site \<Rightarrow> retval \<times> site" where
  "handle_webhook r s =
     (let s1 = meta_logger INFO
                 [Lit ''Facebook Webhook: '', Lit (req_method r), Lit '' request received''] s;
          s2 = meta_logger INFO
                 [Lit ''Facebook Webhook: Headers: '',
                  Str (JObj (map (\<lambda>h. (fst h, JStr (snd h))) (req_headers r)))] s1;
          s3 = meta_logger INFO
                 [Lit ''Facebook Webhook: Args: '',
                  Str (JObj (map (\<lambda>a. (fst a, JStr (snd a))) (req_args r)))] s2;
          s4 = meta_logger INFO
                 [Lit ''Facebook Webhook: User-Agent: '',
                  Lit (case map_of (req_headers r) ''User-Agent'' of
                         None \<Rightarrow> ''None'' | Some u \<Rightarrow> u)] s3;
          s5 = meta_logger INFO
                 [Lit ''Facebook Webhook: Remote IP: '', Str (of_opt (req_remote_addr r))] s4;
          s6 = logger INFO
                 [Lit ''Facebook Webhook: '', Lit (req_method r), Lit '' request received''] s5;
          res = (if req_method r = ''GET'' then handle_verification r s6
                 else if req_method r = ''POST'' then
                   (case handle_lead_event (req_json r) s6 of (env, s7) \<Rightarrow> (Inr (Envelope env), s7))
                 else (Inl (ValidationError ''Unsupported HTTP method''), s6))
      in case res of
           (Inr v, s8) \<Rightarrow> (v, s8)
         | (Inl e, s8) \<Rightarrow>
             (Envelope (Error (str_exc e)),
              set_status 500
                (log_both ERROR [Lit ''Facebook Webhook Error: '', Lit (str_exc e)] s8)))"

section \<open>Webhook subscriptions (facebook_lead_ads_webhook.py)\<close>

text \<open>\<^verbatim>\<open>str(x)\<close> of a string field inside an f-string.\<close>

definition str_opt :: "string option \<Rightarrow> string" where
  "str_opt v = (case v of None \<Rightarrow> ''None'' | Some x \<Rightarrow> x)"

definition autoname :: "webhook \<Rightarrow> webhook" where
  "autoname d =
     (if \<not> truthy_str (wh_webhook_name d) then
        d\<lparr>wh_webhook_name := Some (str_opt (wh_page_id d) @ ''_'' @ str_opt (wh_form_id d))\<rparr>
      else d)"

definition webhook_validate :: "webhook \<Rightarrow> site \<Rightarrow> pyexc option" where
  "webhook_validate d s =
     (if wh_enabled d \<noteq> 0 then
        (if enabled (the_settings s) = 0 then
           Some (ValidationError ''Please enable Facebook Lead Ads Settings first'')
         else if \<not> truthy_str (wh_page_id d) then
           Some (ValidationError ''Page ID is required'')
         else if \<not> truthy_str (wh_form_id d) then
           Some (ValidationError ''Form ID is required'')
         else None)
      else None)"

definition before_insert :: "webhook \<Rightarrow> site \<Rightarrow> webhook" where
  "before_insert d s =
     d\<lparr>wh_verify_token := Some (generate_hash s 32),
       wh_webhook_url :=
         Some (get_url s @ ''/api/method/creqit.meta.FacebookLeadAds.webhook.handle_webhook'')\<rparr>"

text \<open>
  Modelled from the spec: \<^verbatim>\<open>self.save(ignore_permissions=True)\<close> as the methods of
  the webhook document call it (\<^verbatim>\<open>Document.save\<close> is outside the modules
  modelled here): validate, then write. The hooks this nested save runs again are not
  followed: \<^verbatim>\<open>on_update\<close> acts only when \<^verbatim>\<open>enabled\<close> differs from the stored
  document, and the enclosing save has written it by then.
\<close>

definition save_webhook :: "webhook \<Rightarrow> site \<Rightarrow> pyexc + site" where
  "save_webhook d s =
     (case webhook_validate d s of
        Some e \<Rightarrow> Inl e
      | None \<Rightarrow>
          (case db_error s (SaveWebhook d) of
             Some e \<Rightarrow> Inl e
           | None \<Rightarrow> Inr (s\<lparr>stored_webhook := Some d\<rparr>)))"

definition call_api :: "api_call \<Rightarrow> site \<Rightarrow> site" where
  "call_api c s = s\<lparr>api_calls := api_calls s @ [c]\<rparr>"

text \<open>
  The \<^verbatim>\<open>except\<close> branch of \<^verbatim>\<open>subscribe_webhook\<close>: \<^verbatim>\<open>creqit.log_error\<close>, then
  \<^verbatim>\<open>creqit.throw\<close>. The document is returned as it is in memory at that point.
\<close>

definition subscribe_failed :: "pyexc \<Rightarrow> webhook \<Rightarrow> site \<Rightarrow> pyexc option \<times> webhook \<times> site" where
  "subscribe_failed e d s =
     (Some (ValidationError (''Failed to subscribe webhook: '' @ str_exc e)), d,
      s\<lparr>error_log := error_log s @ [''Facebook Webhook Subscription Error'']\<rparr>)"

definition subscribe_webhook :: "webhook \<Rightarrow> site \<Rightarrow> pyexc option \<times> webhook \<times> site" where
  "subscribe_webhook d s =
     (let c1 = CreateSubscription (app_id (the_settings s)) (wh_webhook_url d)
                 (wh_verify_token d) [''leadgen''] True;
          s1 = call_api c1 s
      in case api_create s1 c1 of
           Inl e \<Rightarrow> subscribe_failed e d s1
         | Inr subscription \<Rightarrow>
             (let c2 = InstallApp (wh_page_id d) ''leadgen'';
                  s2 = call_api c2 s1
              in case api_install s2 c2 of
                   Some e \<Rightarrow> subscribe_failed e d s2
                 | None \<Rightarrow>
                     (let d1 = d\<lparr>wh_is_active := 1\<rparr>
                      in case py_get subscription ''id'' JNull of
                           Inl e \<Rightarrow> subscribe_failed e d1 s2
                         | Inr sid \<Rightarrow>
                             (let d2 = d1\<lparr>wh_subscription_id := sid\<rparr>
                              in case save_webhook d2 s2 of
                                   Inl e \<Rightarrow> subscribe_failed e d2 s2
                                 | Inr s3 \<Rightarrow>
                                     (None, d2,
                                      s3\<lparr>msgprints := msgprints s3 @
                                          [''Webhook subscription created successfully'']\<rparr>)))))"

definition unsubscribe_failed :: "pyexc \<Rightarrow> webhook \<Rightarrow> site \<Rightarrow> pyexc option \<times> webhook \<times> site" where
  "unsubscribe_failed e d s =
     (Some (ValidationError (''Failed to unsubscribe webhook: '' @ str_exc e)), d,
      s\<lparr>error_log := error_log s @ [''Facebook Webhook Unsubscription Error'']\<rparr>)"

definition unsubscribe_webhook :: "webhook \<Rightarrow> site \<Rightarrow> pyexc option \<times> webhook \<times> site" where
  "unsubscribe_webhook d s =
     (let c = DeleteSubscription (app_id (the_settings s)) ''page'';
          s1 = call_api c s
      in case api_delete s1 c of
           Some e \<Rightarrow> unsubscribe_failed e d s1
         | None \<Rightarrow>
             (let d2 = d\<lparr>wh_is_active := 0, wh_subscription_id := JNull\<rparr>
              in case save_webhook d2 s1 of
                   Inl e \<Rightarrow> unsubscribe_failed e d2 s1
                 | Inr s2 \<Rightarrow>
                     (None, d2,
                      s2\<lparr>msgprints := msgprints s2 @
                          [''Webhook subscription removed successfully'']\<rparr>)))"

text \<open>
  Modelled from the spec: \<^verbatim>\<open>has_value_changed("enabled")\<close> of the framework, given the
  document before the save (none for a new document).
\<close>

definition has_value_changed_enabled :: "webhook \<Rightarrow> webhook option \<Rightarrow> bool" where
  "has_value_changed_enabled d before =
     (case before of None \<Rightarrow> True | Some p \<Rightarrow> wh_enabled p \<noteq> wh_enabled d)"

definition on_update :: "webhook \<Rightarrow> webhook option \<Rightarrow> site \<Rightarrow> pyexc option \<times> webhook \<times> site" where
  "on_update d before s =
     (if has_value_changed_enabled d before then
        (if wh_enabled d \<noteq> 0 then subscribe_webhook d s else unsubscribe_webhook d s)
      else (None, d, s))"

definition on_trash :: "webhook \<Rightarrow> site \<Rightarrow> pyexc option \<times> webhook \<times> site" where
  "on_trash d s = (if wh_is_active d \<noteq> 0 then unsubscribe_webhook d s else (None, d, s))"

text \<open>\<^verbatim>\<open>process_lead(lead_data)\<close>: on an exception, \<^verbatim>\<open>log_error\<close> and re-raise.\<close>

definition process_lead :: "json \<Rightarrow> webhook \<Rightarrow> site \<Rightarrow> (pyexc + json) \<times> webhook \<times> site" where
  "process_lead data d s =
     (let d1 = d\<lparr>wh_lead_count :=
                  Some ((case wh_lead_count d of None \<Rightarrow> 0 | Some n \<Rightarrow> n) + 1)\<rparr>
      in case utils_now s of (now, s1) \<Rightarrow>
           (let d2 = d1\<lparr>wh_last_lead_received := Some now\<rparr>
            in case save_webhook d2 s1 of
                 Inl e \<Rightarrow>
                   (Inl e, d2,
                    s1\<lparr>error_log := error_log s1 @ [''Facebook Lead Processing Error'']\<rparr>)
               | Inr s2 \<Rightarrow>
                   (Inr data, d2,
                    publish_realtime ''facebook_lead_received'' data (session_user s2) s2)))"

text \<open>
  Modelled from the spec: the framework's life cycle of a webhook document
  (\<^verbatim>\<open>creqit.model.document\<close>, outside the modules modelled here). Creating a record runs \<^verbatim>\<open>before_insert\<close>, names it,
  validates, writes and runs \<^verbatim>\<open>on_update\<close> with no earlier document; updating an
  existing record validates, writes and runs \<^verbatim>\<open>on_update\<close> with the stored document
  as the one before the save. \<^verbatim>\<open>before_insert\<close> is not run on an update.
\<close>

definition insert_webhook :: "webhook \<Rightarrow> site \<Rightarrow> pyexc option \<times> webhook \<times> site" where
  "insert_webhook d s =
     (let d1 = autoname (before_insert d s)
      in case save_webhook d1 s of
           Inl e \<Rightarrow> (Some e, d1, s)
         | Inr s1 \<Rightarrow> on_update d1 None s1)"

definition update_webhook :: "webhook \<Rightarrow> site \<Rightarrow> pyexc option \<times> webhook \<times> site" where
  "update_webhook d s =
     (case save_webhook d s of
        Inl e \<Rightarrow> (Some e, d, s)
      | Inr s1 \<Rightarrow> on_update d (stored_webhook s) s1)"

section \<open>The payload schema\<close>

text \<open>
  The shape the platform sends: an object whose \<^verbatim>\<open>object\<close> is \<^verbatim>\<open>"page"\<close> and whose
  \<^verbatim>\<open>entry\<close> is a list of objects, each with a list \<^verbatim>\<open>changes\<close> of objects; a change
  whose \<^verbatim>\<open>field\<close> is \<^verbatim>\<open>"leadgen"\<close> carries an object \<^verbatim>\<open>value\<close>. These functions
  read a payload without acting on it; the theorems relate them to the handlers.
\<close>

definition is_dict :: "json \<Rightarrow> bool" where
  "is_dict j = (case j of JObj _ \<Rightarrow> True | _ \<Rightarrow> False)"

definition dict_get :: "json \<Rightarrow> string \<Rightarrow> json \<Rightarrow> json" where
  "dict_get j k d = (case py_get j k d of Inr v \<Rightarrow> v | Inl _ \<Rightarrow> d)"

definition is_leadgen :: "json \<Rightarrow> bool" where
  "is_leadgen change = (dict_get change ''field'' JNull = JStr ''leadgen'')"

definition change_value :: "json \<Rightarrow> json" where
  "change_value change = dict_get change ''value'' (JObj [])"

definition wf_change :: "json \<Rightarrow> bool" where
  "wf_change change =
     (is_dict change \<and> (if is_leadgen change then is_dict (change_value change) else True))"

definition entry_changes :: "json \<Rightarrow> json list" where
  "entry_changes entry = (case dict_get entry ''changes'' (JArr []) of JArr cs \<Rightarrow> cs | _ \<Rightarrow> [])"

definition wf_entry :: "json \<Rightarrow> bool" where
  "wf_entry entry =
     (is_dict entry
      \<and> (case dict_get entry ''changes'' (JArr []) of JArr cs \<Rightarrow> list_all wf_change cs | _ \<Rightarrow> False))"

definition payload_entries :: "json \<Rightarrow> json list" where
  "payload_entries payload =
     (case dict_get payload ''entry'' (JArr []) of JArr es \<Rightarrow> es | _ \<Rightarrow> [])"

definition wf_payload :: "json \<Rightarrow> bool" where
  "wf_payload payload =
     (is_dict payload \<and> truthy payload
      \<and> dict_get payload ''object'' JNull = JStr ''page''
      \<and> (case dict_get payload ''entry'' (JArr []) of JArr es \<Rightarrow> list_all wf_entry es | _ \<Rightarrow> False))"

text \<open>The \<^verbatim>\<open>value\<close> objects of the leadgen changes, in the order the loops visit them.\<close>

definition entry_leadgen_values :: "json \<Rightarrow> json list" where
  "entry_leadgen_values entry = map change_value (filter is_leadgen (entry_changes entry))"

definition leadgen_values :: "json list \<Rightarrow> json list" where
  "leadgen_values entries = concat (map entry_leadgen_values entries)"

definition value_leadgen_id :: "json \<Rightarrow> json" where
  "value_leadgen_id v = dict_get v ''leadgen_id'' JNull"

text \<open>
  The notification \<^verbatim>\<open>process_entry\<close> publishes for a \<^verbatim>\<open>value\<close>, given the
  timestamp and the session's user.
\<close>

definition notification :: "json \<Rightarrow> string \<Rightarrow> string \<Rightarrow> realtime_event" where
  "notification v now u =
     \<lparr>event = ''facebook_lead_received'',
      message = JObj [(''leadgen_id'', dict_get v ''leadgen_id'' JNull),
                      (''page_id'', dict_get v ''page_id'' JNull),
                      (''form_id'', dict_get v ''form_id'' JNull),
                      (''timestamp'', JStr now)],
      user = u\<rparr>"

text \<open>The messages a log holds at one level.\<close>

definition entries_at :: "level \<Rightarrow> (level \<times> fstring) list \<Rightarrow> fstring list" where
  "entries_at l log = map snd (filter (\<lambda>e. fst e = l) log)"

text \<open>
  The record \<^verbatim>\<open>create_facebook_lead\<close> is to build for a \<^verbatim>\<open>value\<close>: status
  \<^verbatim>\<open>New\<close>, the identifiers of the value, and the value itself as the raw payload.
\<close>

definition created_from :: "json \<Rightarrow> lead \<Rightarrow> bool" where
  "created_from v l =
     (status l = ''New''
      \<and> lead_id l = [Lit ''FB-'', Str (dict_get v ''leadgen_id'' JNull)]
      \<and> facebook_lead_id l = dict_get v ''leadgen_id'' JNull
      \<and> facebook_form_id l = dict_get v ''form_id'' JNull
      \<and> facebook_page_id l = dict_get v ''page_id'' JNull
      \<and> facebook_ad_id l = dict_get v ''ad_id'' JNull
      \<and> facebook_adset_id l = dict_get v ''adset_id'' JNull
      \<and> lead_data l = [Dumps v])"

text \<open>The external ids the table of leads holds.\<close>

definition stored_ids :: "site \<Rightarrow> json set" where
  "stored_ids s = set (map facebook_lead_id (leads s))"

text \<open>
  Deduplication as the spec words it: of the values delivered, those whose
  \<^verbatim>\<open>leadgen_id\<close> is neither stored already nor delivered earlier in the same run.
\<close>

fun new_values :: "json set \<Rightarrow> json list \<Rightarrow> json list" where
  "new_values seen [] = []"
| "new_values seen (v # vs) =
     (if value_leadgen_id v \<in> seen then new_values seen vs
      else v # new_values (insert (value_leadgen_id v) seen) vs)"

text \<open>The warning \<^verbatim>\<open>create_facebook_lead\<close> logs when the DocType is missing.\<close>

definition skip_msg :: fstring where
  "skip_msg = [Lit ''Facebook Lead DocType not found, skipping lead creation'']"

text \<open>The stored leads with a given external id.\<close>

definition leads_with :: "json \<Rightarrow> site \<Rightarrow> lead list" where
  "leads_with leadgen_id s = filter (\<lambda>l. facebook_lead_id l = leadgen_id) (leads s)"

section \<open>Reading the handshake and the platform calls\<close>

text \<open>
  The three conditions of the handshake: the feature is enabled, the token received
  equals the stored one, and the mode is \<^verbatim>\<open>subscribe\<close>.
\<close>

definition verified :: "request \<Rightarrow> site \<Rightarrow> bool" where
  "verified r s =
     (enabled (the_settings s) \<noteq> 0
      \<and> webhook_verify_token (the_settings s) = args_get r ''hub.verify_token''
      \<and> args_get r ''hub.mode'' = Some ''subscribe'')"

text \<open>
  The save of the settings marked active goes through: \<^verbatim>\<open>validate\<close> accepts them and
  the store takes the write.
\<close>

definition activation_saved :: "site \<Rightarrow> bool" where
  "activation_saved s =
     (settings_validate ((the_settings s)\<lparr>webhook_is_active := 1\<rparr>) = None
      \<and> db_error s (SaveSettings ((the_settings s)\<lparr>webhook_is_active := 1\<rparr>)) = None)"

definition is_response :: "retval \<Rightarrow> bool" where
  "is_response v = (case v of Response _ _ _ \<Rightarrow> True | _ \<Rightarrow> False)"

text \<open>The verify tokens sent with the subscription calls of a list of platform calls.\<close>

fun subscription_tokens :: "api_call list \<Rightarrow> string option list" where
  "subscription_tokens [] = []"
| "subscription_tokens (CreateSubscription a u tok fs iv # cs) = tok # subscription_tokens cs"
| "subscription_tokens (c # cs) = subscription_tokens cs"

section \<open>Concrete sites and payloads\<close>

text \<open>
  A site whose settings are enabled and complete, with the verify token \<^verbatim>\<open>secret\<close>,
  an empty table of leads, a store and a platform that never fail.
\<close>

definition example_settings :: settings where
  "example_settings =
     \<lparr>enabled = 1, app_id = Some ''1234'', app_secret = Some ''s3cr3t'', access_token = None,
      token_expiry = None, webhook_verify_token = Some ''secret'',
      webhook_callback_url = None, webhook_is_active = 0\<rparr>"

definition example_site :: site where
  "example_site =
     \<lparr>the_settings = example_settings,
      doctype_facebook_lead = True,
      leads = [],
      stored_webhook = None,
      db_error = (\<lambda>w. None),
      new_name = (\<lambda>l. ''FBL-0001''),
      realtime = [],
      session_user = ''Guest'',
      time_source = (\<lambda>n. ''2025-01-01 00:00:00''),
      now_calls = 0,
      generate_hash = (\<lambda>n. replicate n CHR ''a''),
      expiry_after = (\<lambda>n. Inr ''2025-03-02 00:00:00''),
      get_url = ''https://example.com'',
      api_create = (\<lambda>c. Inr (JObj [(''id'', JStr ''sub-1'')])),
      api_install = (\<lambda>c. None),
      api_delete = (\<lambda>c. None),
      api_calls = [],
      meta_log = [],
      app_log = [],
      error_log = [],
      msgprints = [],
      status_code = None,
      web_page = None\<rparr>"

text \<open>\<^verbatim>\<open>{"leadgen_id": l, "page_id": "P1", "form_id": "F1"}\<close> inside a leadgen change.\<close>

definition leadgen_change :: "string \<Rightarrow> json" where
  "leadgen_change l =
     JObj [(''field'', JStr ''leadgen''),
           (''value'', JObj [(''leadgen_id'', JStr l), (''page_id'', JStr ''P1''),
                             (''form_id'', JStr ''F1'')])]"


text \<open>A page payload with one entry holding the given changes.\<close>

definition page_payload :: "json list \<Rightarrow> json" where
  "page_payload cs =
     JObj [(''object'', JStr ''page''),
           (''entry'', JArr [JObj [(''id'', JStr ''E1''), (''changes'', JArr cs)]])]"

text \<open>Two leadgen changes, \<^verbatim>\<open>L1\<close> and \<^verbatim>\<open>L2\<close>, around a change of another field.\<close>

definition two_leads_payload :: json where
  "two_leads_payload =
     page_payload [leadgen_change ''L1'', JObj [(''field'', JStr ''feed'')], leadgen_change ''L2'']"

text \<open>The example site without the DocType \<^verbatim>\<open>Facebook Lead\<close>.\<close>

definition site_without_doctype :: site where
  "site_without_doctype = example_site\<lparr>doctype_facebook_lead := False\<rparr>"


text \<open>The example site with settings that are enabled but lack the app id.\<close>

definition site_incomplete_settings :: site where
  "site_incomplete_settings = example_site\<lparr>the_settings := example_settings\<lparr>app_id := None\<rparr>\<rparr>"

text \<open>
  \<^verbatim>\<open>GET ...?hub.mode=subscribe&hub.verify_token=secret&hub.challenge=1158201444\<close>.
\<close>

definition subscribe_request :: request where
  "subscribe_request =
     \<lparr>req_method = ''GET'', req_headers = [],
      req_args = [(''hub.mode'', ''subscribe''), (''hub.verify_token'', ''secret''),
                  (''hub.challenge'', ''1158201444'')],
      req_remote_addr = None, req_json = Inr JNull\<rparr>"

text \<open>The same request with a token that is not the stored one.\<close>

definition wrong_token_request :: request where
  "wrong_token_request =
     subscribe_request\<lparr>req_args := [(''hub.mode'', ''subscribe''), (''hub.verify_token'', ''guess''),
                                    (''hub.challenge'', ''1158201444'')]\<rparr>"

text \<open>A webhook document for page \<^verbatim>\<open>P1\<close> and form \<^verbatim>\<open>F1\<close>, enabled, not yet active.\<close>

definition example_webhook :: webhook where
  "example_webhook =
     \<lparr>wh_webhook_name = Some ''P1_F1'', wh_enabled = 1, wh_page_id = Some ''P1'',
      wh_form_id = Some ''F1'', wh_verify_token = Some ''0123456789abcdef0123456789abcdef'',
      wh_webhook_url = Some ''https://example.com/hook'', wh_is_active = 0,
      wh_subscription_id = JNull, wh_lead_count = None, wh_last_lead_received = None\<rparr>"

text \<open>The example site with a platform that refuses to install the app on the page.\<close>

definition site_failing_install :: site where
  "site_failing_install =
     example_site\<lparr>api_install := (\<lambda>c. Some (OtherError ''(#200) Permissions error''))\<rparr>"

text \<open>The example site holding the example webhook, disabled.\<close>

definition site_disabled_webhook :: site where
  "site_disabled_webhook = example_site\<lparr>stored_webhook := Some (example_webhook\<lparr>wh_enabled := 0\<rparr>)\<rparr>"

section \<open>Auxiliary facts\<close>

subsection \<open>One change\<close>

text \<open>
  On a change that is an object, \<^verbatim>\<open>process_change\<close> either skips it or, for a leadgen
  change whose value is an object, creates the lead and publishes the notification.
\<close>

lemmas eff_defs = meta_logger_def logger_def log_both_def utils_now_def publish_realtime_def
  set_status_def respond_as_web_page_def create_failed_def insert_lead_def

lemma py_get_dict: "is_dict j \<Longrightarrow> py_get j k d = Inr (dict_get j k d)"
  by (auto simp: is_dict_def py_get_def dict_get_def split: json.splits)

lemma process_change_skip:
  "is_dict c \<Longrightarrow> \<not> is_leadgen c \<Longrightarrow>
   process_change c s =
     (None, meta_logger INFO [Lit ''Skipping non-leadgen change: '', Str (dict_get c ''field'' JNull)] s)"
  by (simp add: process_change_def py_get_dict is_leadgen_def)

lemma process_change_leadgen:
  assumes "is_dict c" "is_leadgen c" "is_dict (change_value c)"
  shows "process_change c s =
     (let v = change_value c;
          l = dict_get v ''leadgen_id'' JNull;
          p = dict_get v ''page_id'' JNull;
          f = dict_get v ''form_id'' JNull;
          s3 = create_facebook_lead l p f v
                 (meta_logger INFO [Lit ''Lead data: '', Dumps v]
                   (meta_logger INFO [Lit ''Received lead '', Str l, Lit '' from page '', Str p,
                                      Lit '', form '', Str f] s))
      in (None, publish_realtime ''facebook_lead_received''
                  (message (notification v (time_source s3 (now_calls s3)) (session_user s3)))
                  (session_user s3) (s3\<lparr>now_calls := Suc (now_calls s3)\<rparr>)))"
  using assms
  by (simp add: process_change_def py_get_dict is_leadgen_def change_value_def Let_def
      notification_def utils_now_def)


subsection \<open>Runs on a site without the DocType\<close>

text \<open>
  Without the DocType a well-formed change, list of changes, list of entries and payload
  leave the leads alone, log the warning once per leadgen change and publish one
  notification per leadgen change.
\<close>

lemma entries_at_append [simp]: "entries_at l (xs @ ys) = entries_at l xs @ entries_at l ys"
  by (simp add: entries_at_def)

lemma entries_at_Nil [simp]: "entries_at l [] = []"
  by (simp add: entries_at_def)

lemma entries_at_Cons [simp]:
  "entries_at l (e # es) = (if fst e = l then snd e # entries_at l es else entries_at l es)"
  by (simp add: entries_at_def)

lemma pc_no_doctype:
  assumes "\<not> doctype_facebook_lead s" "wf_change c"
  shows "\<exists>s'. process_change c s = (None, s')
     \<and> \<not> doctype_facebook_lead s' \<and> leads s' = leads s \<and> session_user s' = session_user s
     \<and> status_code s' = status_code s
     \<and> realtime s' = realtime s @
          (if is_leadgen c then [notification (change_value c) (time_source s (now_calls s)) (session_user s)] else [])
     \<and> time_source s' = time_source s
     \<and> entries_at WARNING (meta_log s') = entries_at WARNING (meta_log s) @ (if is_leadgen c then [skip_msg] else [])
     \<and> entries_at WARNING (app_log s') = entries_at WARNING (app_log s) @ (if is_leadgen c then [skip_msg] else [])
     \<and> entries_at ERROR (meta_log s') = entries_at ERROR (meta_log s)
     \<and> entries_at ERROR (app_log s') = entries_at ERROR (app_log s)"
proof (cases "is_leadgen c")
  case True
  then show ?thesis using assms
    by (simp add: wf_change_def process_change_leadgen Let_def notification_def
        create_facebook_lead_def eff_defs skip_msg_def)
next
  case False
  then show ?thesis using assms
    by (simp add: wf_change_def process_change_skip eff_defs)
qed

lemma pcs_no_doctype:
  assumes "\<not> doctype_facebook_lead s" "list_all wf_change cs"
  shows "\<exists>s' ts. process_changes cs s = (None, s')
     \<and> \<not> doctype_facebook_lead s' \<and> leads s' = leads s \<and> session_user s' = session_user s
     \<and> status_code s' = status_code s
     \<and> length ts = length (filter is_leadgen cs)
     \<and> realtime s' = realtime s @
          map2 (\<lambda>v t. notification v t (session_user s)) (map change_value (filter is_leadgen cs)) ts
     \<and> entries_at WARNING (meta_log s') =
          entries_at WARNING (meta_log s) @ replicate (length (filter is_leadgen cs)) skip_msg
     \<and> entries_at WARNING (app_log s') =
          entries_at WARNING (app_log s) @ replicate (length (filter is_leadgen cs)) skip_msg
     \<and> entries_at ERROR (meta_log s') = entries_at ERROR (meta_log s)
     \<and> entries_at ERROR (app_log s') = entries_at ERROR (app_log s)"
  using assms
proof (induction cs arbitrary: s)
  case Nil
  then show ?case by simp
next
  case (Cons c cs)
  from Cons.prems have wc: "wf_change c" and wcs: "list_all wf_change cs" by simp_all
  from pc_no_doctype[OF Cons.prems(1) wc] obtain s1 where
    s1: "process_change c s = (None, s1)" "\<not> doctype_facebook_lead s1" "leads s1 = leads s"
      "session_user s1 = session_user s" "status_code s1 = status_code s"
      "realtime s1 = realtime s @
          (if is_leadgen c then [notification (change_value c) (time_source s (now_calls s)) (session_user s)] else [])"
      "entries_at WARNING (meta_log s1) = entries_at WARNING (meta_log s) @ (if is_leadgen c then [skip_msg] else [])"
      "entries_at WARNING (app_log s1) = entries_at WARNING (app_log s) @ (if is_leadgen c then [skip_msg] else [])"
      "entries_at ERROR (meta_log s1) = entries_at ERROR (meta_log s)"
      "entries_at ERROR (app_log s1) = entries_at ERROR (app_log s)"
    by blast
  from Cons.IH[OF s1(2) wcs] obtain s' ts where
    s': "process_changes cs s1 = (None, s')" "\<not> doctype_facebook_lead s'" "leads s' = leads s1"
      "session_user s' = session_user s1" "status_code s' = status_code s1"
      "length ts = length (filter is_leadgen cs)"
      "realtime s' = realtime s1 @
          map2 (\<lambda>v t. notification v t (session_user s1)) (map change_value (filter is_leadgen cs)) ts"
      "entries_at WARNING (meta_log s') =
          entries_at WARNING (meta_log s1) @ replicate (length (filter is_leadgen cs)) skip_msg"
      "entries_at WARNING (app_log s') =
          entries_at WARNING (app_log s1) @ replicate (length (filter is_leadgen cs)) skip_msg"
      "entries_at ERROR (meta_log s') = entries_at ERROR (meta_log s1)"
      "entries_at ERROR (app_log s') = entries_at ERROR (app_log s1)"
    by blast
  show ?case
  proof (cases "is_leadgen c")
    case True
    let ?ts = "time_source s (now_calls s) # ts"
    show ?thesis
      apply (rule exI[of _ s'], rule exI[of _ ?ts])
      using True s1 s' by simp
  next
    case False
    show ?thesis
      apply (rule exI[of _ s'], rule exI[of _ ts])
      using False s1 s' by simp
  qed
qed


lemma process_entry_wf:
  assumes "wf_entry e"
  shows "list_all wf_change (entry_changes e)
     \<and> process_entry e s =
         process_changes (entry_changes e)
           (meta_logger INFO [Lit ''Processing entry '', Str (dict_get e ''id'' JNull), Lit '' with '',
              Str (JInt (int (length (entry_changes e)))), Lit '' changes''] s)"
  using assms
  by (auto simp: wf_entry_def entry_changes_def process_entry_def py_get_dict py_len_def
      py_iter_def Let_def split: json.splits)

lemma leadgen_values_Cons:
  "leadgen_values (e # es) = map change_value (filter is_leadgen (entry_changes e)) @ leadgen_values es"
  by (simp add: leadgen_values_def entry_leadgen_values_def)

lemma pes_no_doctype:
  assumes "\<not> doctype_facebook_lead s" "list_all wf_entry es"
  shows "\<exists>s' ts. process_entries es s = (None, s')
     \<and> \<not> doctype_facebook_lead s' \<and> leads s' = leads s \<and> session_user s' = session_user s
     \<and> status_code s' = status_code s
     \<and> length ts = length (leadgen_values es)
     \<and> realtime s' = realtime s @
          map2 (\<lambda>v t. notification v t (session_user s)) (leadgen_values es) ts
     \<and> entries_at WARNING (meta_log s') =
          entries_at WARNING (meta_log s) @ replicate (length (leadgen_values es)) skip_msg
     \<and> entries_at WARNING (app_log s') =
          entries_at WARNING (app_log s) @ replicate (length (leadgen_values es)) skip_msg
     \<and> entries_at ERROR (meta_log s') = entries_at ERROR (meta_log s)
     \<and> entries_at ERROR (app_log s') = entries_at ERROR (app_log s)"
  using assms
proof (induction es arbitrary: s)
  case Nil
  then show ?case by (simp add: leadgen_values_def)
next
  case (Cons e es)
  from Cons.prems have we: "wf_entry e" and wes: "list_all wf_entry es" by simp_all
  let ?s0 = "meta_logger INFO [Lit ''Processing entry '', Str (dict_get e ''id'' JNull), Lit '' with '',
              Str (JInt (int (length (entry_changes e)))), Lit '' changes''] s"
  let ?cs = "entry_changes e"
  let ?vs1 = "map change_value (filter is_leadgen ?cs)"
  from process_entry_wf[OF we, of s] have wcs: "list_all wf_change ?cs"
    and pe: "process_entry e s = process_changes ?cs ?s0" by simp_all
  have nd0: "\<not> doctype_facebook_lead ?s0" using Cons.prems(1) by (simp add: meta_logger_def)
  from pcs_no_doctype[OF nd0 wcs] obtain s1 ts1 where
    s1: "process_changes ?cs ?s0 = (None, s1)" "\<not> doctype_facebook_lead s1" "leads s1 = leads s"
      "session_user s1 = session_user s" "status_code s1 = status_code s"
      "length ts1 = length ?vs1"
      "realtime s1 = realtime s @ map2 (\<lambda>v t. notification v t (session_user s)) ?vs1 ts1"
      "entries_at WARNING (meta_log s1) =
          entries_at WARNING (meta_log s) @ replicate (length ?vs1) skip_msg"
      "entries_at WARNING (app_log s1) =
          entries_at WARNING (app_log s) @ replicate (length ?vs1) skip_msg"
      "entries_at ERROR (meta_log s1) = entries_at ERROR (meta_log s)"
      "entries_at ERROR (app_log s1) = entries_at ERROR (app_log s)"
    by (auto simp: meta_logger_def)
  from Cons.IH[OF s1(2) wes] obtain s' ts where
    s': "process_entries es s1 = (None, s')" "\<not> doctype_facebook_lead s'" "leads s' = leads s1"
      "session_user s' = session_user s1" "status_code s' = status_code s1"
      "length ts = length (leadgen_values es)"
      "realtime s' = realtime s1 @
          map2 (\<lambda>v t. notification v t (session_user s1)) (leadgen_values es) ts"
      "entries_at WARNING (meta_log s') =
          entries_at WARNING (meta_log s1) @ replicate (length (leadgen_values es)) skip_msg"
      "entries_at WARNING (app_log s') =
          entries_at WARNING (app_log s1) @ replicate (length (leadgen_values es)) skip_msg"
      "entries_at ERROR (meta_log s') = entries_at ERROR (meta_log s1)"
      "entries_at ERROR (app_log s') = entries_at ERROR (app_log s1)"
    by blast
  show ?case
    apply (rule exI[of _ s'], rule exI[of _ "ts1 @ ts"])
    using pe s1 s' by (simp add: leadgen_values_Cons replicate_add)
qed

lemma handle_lead_event_wf:
  assumes "wf_payload p"
  shows "list_all wf_entry (payload_entries p)
    \<and> handle_lead_event (Inr p) s =
      (case process_entries (payload_entries p)
              (meta_logger INFO [Lit ''Facebook Lead Event Payload: '', Dumps p] s) of
         (Some e, s2) \<Rightarrow> lead_event_failed e s2
       | (None, s2) \<Rightarrow>
           (Success, set_status 200
              (meta_logger INFO [Lit ''Facebook Lead Event processed successfully''] s2)))"
  using assms
  by (auto simp: wf_payload_def payload_entries_def handle_lead_event_def py_get_dict
      py_iter_def Let_def split: json.splits)


subsection \<open>Runs on a site whose store accepts every insert\<close>

text \<open>
  With the DocType and a store that accepts every insert, a well-formed run appends the
  records of \<open>new_values\<close>: one per value whose id was not stored and not seen before.
\<close>

lemma pc_store:
  assumes "doctype_facebook_lead s" "\<forall>d. db_error s (InsertLead d) = None" "wf_change c"
  shows "\<exists>s' docs ts. process_change c s = (None, s')
     \<and> doctype_facebook_lead s' \<and> db_error s' = db_error s \<and> session_user s' = session_user s
     \<and> status_code s' = status_code s
     \<and> leads s' = leads s @ docs
     \<and> list_all2 created_from (new_values (stored_ids s) (map change_value (filter is_leadgen [c]))) docs
     \<and> length ts = length (filter is_leadgen [c])
     \<and> realtime s' = realtime s @
          map2 (\<lambda>v t. notification v t (session_user s)) (map change_value (filter is_leadgen [c])) ts"
proof (cases "is_leadgen c")
  case False
  then show ?thesis using assms
    by (simp add: wf_change_def process_change_skip eff_defs)
next
  case True
  let ?v = "change_value c"
  have d: "is_dict c" "is_dict ?v" using assms(3) True by (simp_all add: wf_change_def)
  show ?thesis
  proof (cases "value_leadgen_id ?v \<in> stored_ids s")
    case True
    show ?thesis
      apply (rule exI, rule exI[of _ "[]"], rule exI[of _ "[time_source s (now_calls s)]"])
      using True \<open>is_leadgen c\<close> d assms(1,2)
      by (auto simp add: process_change_leadgen Let_def notification_def create_facebook_lead_def
          eff_defs db_exists_lead_def stored_ids_def value_leadgen_id_def)
  next
    case False
    show ?thesis
      apply (rule exI, rule exI[of _ "[x]" for x], rule exI[of _ "[time_source s (Suc (now_calls s))]"])
      using False \<open>is_leadgen c\<close> d assms(1,2)
      by (auto simp add: process_change_leadgen Let_def notification_def create_facebook_lead_def
          eff_defs db_exists_lead_def stored_ids_def value_leadgen_id_def py_get_dict created_from_def)
  qed
qed


lemma new_values_append:
  "new_values S (xs @ ys) = new_values S xs @ new_values (S \<union> value_leadgen_id ` set xs) ys"
  by (induction xs arbitrary: S) (simp_all add: insert_absorb)

lemma new_values_ids:
  "S \<union> value_leadgen_id ` set (new_values S vs) = S \<union> value_leadgen_id ` set vs"
proof (induction vs arbitrary: S)
  case Nil
  then show ?case by simp
next
  case (Cons v vs)
  show ?case
  proof (cases "value_leadgen_id v \<in> S")
    case True
    then show ?thesis using Cons.IH[of S] by auto
  next
    case False
    then show ?thesis using Cons.IH[of "insert (value_leadgen_id v) S"] by auto
  qed
qed

lemma created_from_ids:
  "list_all2 created_from xs docs \<Longrightarrow> map facebook_lead_id docs = map value_leadgen_id xs"
  by (induction rule: list_all2_induct) (simp_all add: created_from_def value_leadgen_id_def)

lemma stored_after:
  assumes "leads s1 = leads s @ d1" "list_all2 created_from (new_values (stored_ids s) vs1) d1"
  shows "stored_ids s1 = stored_ids s \<union> value_leadgen_id ` set vs1"
proof -
  have "facebook_lead_id ` set d1 = value_leadgen_id ` set (new_values (stored_ids s) vs1)"
    using created_from_ids[OF assms(2)] by (metis list.set_map)
  then show ?thesis using assms(1) new_values_ids[of "stored_ids s" vs1]
    by (simp add: stored_ids_def image_Un)
qed

lemma created_compose:
  assumes "leads s1 = leads s @ d1" "list_all2 created_from (new_values (stored_ids s) vs1) d1"
    "list_all2 created_from (new_values (stored_ids s1) vs2) d2"
  shows "list_all2 created_from (new_values (stored_ids s) (vs1 @ vs2)) (d1 @ d2)"
  using assms(2,3) stored_after[OF assms(1,2)]
  by (simp add: new_values_append list_all2_appendI)

lemma pcs_store:
  assumes "doctype_facebook_lead s" "\<forall>d. db_error s (InsertLead d) = None" "list_all wf_change cs"
  shows "\<exists>s' docs ts. process_changes cs s = (None, s')
     \<and> doctype_facebook_lead s' \<and> db_error s' = db_error s \<and> session_user s' = session_user s
     \<and> status_code s' = status_code s
     \<and> leads s' = leads s @ docs
     \<and> list_all2 created_from (new_values (stored_ids s) (map change_value (filter is_leadgen cs))) docs
     \<and> length ts = length (filter is_leadgen cs)
     \<and> realtime s' = realtime s @
          map2 (\<lambda>v t. notification v t (session_user s)) (map change_value (filter is_leadgen cs)) ts"
  using assms
proof (induction cs arbitrary: s)
  case Nil
  then show ?case by simp
next
  case (Cons c cs)
  let ?v1 = "map change_value (filter is_leadgen [c])"
  let ?vs = "map change_value (filter is_leadgen cs)"
  from Cons.prems have wc: "wf_change c" and wcs: "list_all wf_change cs" by simp_all
  from pc_store[OF Cons.prems(1,2) wc] obtain s1 d1 t1 where
    s1: "process_change c s = (None, s1)" "doctype_facebook_lead s1" "db_error s1 = db_error s"
      "session_user s1 = session_user s" "status_code s1 = status_code s"
      "leads s1 = leads s @ d1"
      "list_all2 created_from (new_values (stored_ids s) ?v1) d1"
      "length t1 = length (filter is_leadgen [c])"
      "realtime s1 = realtime s @ map2 (\<lambda>v t. notification v t (session_user s)) ?v1 t1"
    by blast
  have ne: "\<forall>d. db_error s1 (InsertLead d) = None" using s1(3) Cons.prems(2) by simp
  from Cons.IH[OF s1(2) ne wcs] obtain s' d2 t2 where
    s': "process_changes cs s1 = (None, s')" "doctype_facebook_lead s'" "db_error s' = db_error s1"
      "session_user s' = session_user s1" "status_code s' = status_code s1"
      "leads s' = leads s1 @ d2"
      "list_all2 created_from (new_values (stored_ids s1) ?vs) d2"
      "length t2 = length (filter is_leadgen cs)"
      "realtime s' = realtime s1 @ map2 (\<lambda>v t. notification v t (session_user s1)) ?vs t2"
    by blast
  have split: "map change_value (filter is_leadgen (c # cs)) = ?v1 @ ?vs" by simp
  have cr: "list_all2 created_from (new_values (stored_ids s) (?v1 @ ?vs)) (d1 @ d2)"
    by (rule created_compose[OF s1(6) s1(7) s'(7)])
  have ev: "realtime s' = realtime s @
      map2 (\<lambda>v t. notification v t (session_user s)) (?v1 @ ?vs) (t1 @ t2)"
    using s1(4,8,9) s'(9) by simp
  have len: "length (t1 @ t2) = length (filter is_leadgen (c # cs))"
    using s1(8) s'(8) by simp
  show ?case
    apply (rule exI[of _ s'], rule exI[of _ "d1 @ d2"], rule exI[of _ "t1 @ t2"])
    unfolding split
    using s1(1,3,4,5,6) s'(1,2,3,4,5,6) cr ev len by simp
qed

lemma pes_store:
  assumes "doctype_facebook_lead s" "\<forall>d. db_error s (InsertLead d) = None" "list_all wf_entry es"
  shows "\<exists>s' docs ts. process_entries es s = (None, s')
     \<and> doctype_facebook_lead s' \<and> db_error s' = db_error s \<and> session_user s' = session_user s
     \<and> status_code s' = status_code s
     \<and> leads s' = leads s @ docs
     \<and> list_all2 created_from (new_values (stored_ids s) (leadgen_values es)) docs
     \<and> length ts = length (leadgen_values es)
     \<and> realtime s' = realtime s @
          map2 (\<lambda>v t. notification v t (session_user s)) (leadgen_values es) ts"
  using assms
proof (induction es arbitrary: s)
  case Nil
  then show ?case by (simp add: leadgen_values_def)
next
  case (Cons e es)
  let ?s0 = "meta_logger INFO [Lit ''Processing entry '', Str (dict_get e ''id'' JNull), Lit '' with '',
              Str (JInt (int (length (entry_changes e)))), Lit '' changes''] s"
  let ?cs = "entry_changes e"
  let ?v1 = "map change_value (filter is_leadgen ?cs)"
  let ?vs = "leadgen_values es"
  from Cons.prems have we: "wf_entry e" and wes: "list_all wf_entry es" by simp_all
  from process_entry_wf[OF we, of s] have wcs: "list_all wf_change ?cs"
    and pe: "process_entry e s = process_changes ?cs ?s0" by simp_all
  have p0: "doctype_facebook_lead ?s0" "\<forall>d. db_error ?s0 (InsertLead d) = None"
    using Cons.prems(1,2) by (simp_all add: meta_logger_def)
  have same0: "stored_ids ?s0 = stored_ids s" "leads ?s0 = leads s" "realtime ?s0 = realtime s"
    "session_user ?s0 = session_user s" "status_code ?s0 = status_code s" "db_error ?s0 = db_error s"
    by (simp_all add: meta_logger_def stored_ids_def)
  from pcs_store[OF p0 wcs] obtain s1 d1 t1 where
    s1: "process_changes ?cs ?s0 = (None, s1)" "doctype_facebook_lead s1" "db_error s1 = db_error s"
      "session_user s1 = session_user s" "status_code s1 = status_code s"
      "leads s1 = leads s @ d1"
      "list_all2 created_from (new_values (stored_ids s) ?v1) d1"
      "length t1 = length (filter is_leadgen ?cs)"
      "realtime s1 = realtime s @ map2 (\<lambda>v t. notification v t (session_user s)) ?v1 t1"
    unfolding same0 by blast
  have ne: "\<forall>d. db_error s1 (InsertLead d) = None" using s1(3) Cons.prems(2) by simp
  from Cons.IH[OF s1(2) ne wes] obtain s' d2 t2 where
    s': "process_entries es s1 = (None, s')" "doctype_facebook_lead s'" "db_error s' = db_error s1"
      "session_user s' = session_user s1" "status_code s' = status_code s1"
      "leads s' = leads s1 @ d2"
      "list_all2 created_from (new_values (stored_ids s1) ?vs) d2"
      "length t2 = length ?vs"
      "realtime s' = realtime s1 @ map2 (\<lambda>v t. notification v t (session_user s1)) ?vs t2"
    by blast
  have cr: "list_all2 created_from (new_values (stored_ids s) (?v1 @ ?vs)) (d1 @ d2)"
    by (rule created_compose[OF s1(6) s1(7) s'(7)])
  have ev: "realtime s' = realtime s @
      map2 (\<lambda>v t. notification v t (session_user s)) (?v1 @ ?vs) (t1 @ t2)"
    using s1(4,8,9) s'(9) by simp
  have len: "length (t1 @ t2) = length (?v1 @ ?vs)"
    using s1(8) s'(8) by simp
  show ?case
    apply (rule exI[of _ s'], rule exI[of _ "d1 @ d2"], rule exI[of _ "t1 @ t2"])
    unfolding leadgen_values_Cons
    using pe s1(1,3,4,5,6) s'(1,2,3,4,5,6) cr ev len by simp
qed

lemma ingest_without_doctype:
  assumes "\<not> doctype_facebook_lead s" and "wf_payload p"
  shows "fst (handle_lead_event (Inr p) s) = Success
     \<and> \<not> doctype_facebook_lead (snd (handle_lead_event (Inr p) s))
     \<and> status_code (snd (handle_lead_event (Inr p) s)) = Some 200
     \<and> leads (snd (handle_lead_event (Inr p) s)) = leads s
     \<and> (\<exists>ts. length ts = length (leadgen_values (payload_entries p))
           \<and> realtime (snd (handle_lead_event (Inr p) s)) =
               realtime s @ map2 (\<lambda>v t. notification v t (session_user s))
                               (leadgen_values (payload_entries p)) ts)
     \<and> entries_at WARNING (meta_log (snd (handle_lead_event (Inr p) s))) =
         entries_at WARNING (meta_log s)
           @ replicate (length (leadgen_values (payload_entries p))) skip_msg
     \<and> entries_at WARNING (app_log (snd (handle_lead_event (Inr p) s))) =
         entries_at WARNING (app_log s)
           @ replicate (length (leadgen_values (payload_entries p))) skip_msg
     \<and> entries_at ERROR (meta_log (snd (handle_lead_event (Inr p) s))) = entries_at ERROR (meta_log s)
     \<and> entries_at ERROR (app_log (snd (handle_lead_event (Inr p) s))) = entries_at ERROR (app_log s)"
proof -
  let ?s0 = "meta_logger INFO [Lit ''Facebook Lead Event Payload: '', Dumps p] s"
  let ?vs = "leadgen_values (payload_entries p)"
  from handle_lead_event_wf[OF assms(2), of s]
  have wes: "list_all wf_entry (payload_entries p)"
    and h: "handle_lead_event (Inr p) s =
      (case process_entries (payload_entries p) ?s0 of
         (Some e, s2) \<Rightarrow> lead_event_failed e s2
       | (None, s2) \<Rightarrow>
           (Success, set_status 200
              (meta_logger INFO [Lit ''Facebook Lead Event processed successfully''] s2)))"
    by simp_all
  have nd: "\<not> doctype_facebook_lead ?s0" using assms(1) by (simp add: meta_logger_def)
  from pes_no_doctype[OF nd wes] obtain s' ts where
    s': "process_entries (payload_entries p) ?s0 = (None, s')" "leads s' = leads ?s0"
      "\<not> doctype_facebook_lead s'"
      "length ts = length ?vs"
      "realtime s' = realtime ?s0 @ map2 (\<lambda>v t. notification v t (session_user ?s0)) ?vs ts"
      "entries_at WARNING (meta_log s') = entries_at WARNING (meta_log ?s0) @ replicate (length ?vs) skip_msg"
      "entries_at WARNING (app_log s') = entries_at WARNING (app_log ?s0) @ replicate (length ?vs) skip_msg"
      "entries_at ERROR (meta_log s') = entries_at ERROR (meta_log ?s0)"
      "entries_at ERROR (app_log s') = entries_at ERROR (app_log ?s0)"
    by blast
  have r: "handle_lead_event (Inr p) s =
      (Success, set_status 200
         (meta_logger INFO [Lit ''Facebook Lead Event processed successfully''] s'))"
    using h s'(1) by simp
  have ev: "\<exists>ts. length ts = length ?vs
           \<and> realtime (snd (handle_lead_event (Inr p) s)) =
               realtime s @ map2 (\<lambda>v t. notification v t (session_user s)) ?vs ts"
    apply (rule exI[of _ ts])
    using r s'(4,5) by (simp add: set_status_def meta_logger_def)
  show ?thesis
    using r s'(2,3,6,7,8,9) ev by (simp add: set_status_def meta_logger_def)
qed

lemma ingest_store:
  assumes "doctype_facebook_lead s" "\<forall>d. db_error s (InsertLead d) = None" "wf_payload p"
  shows "\<exists>s' docs ts. handle_lead_event (Inr p) s = (Success, s')
     \<and> status_code s' = Some 200
     \<and> doctype_facebook_lead s' \<and> db_error s' = db_error s \<and> session_user s' = session_user s
     \<and> leads s' = leads s @ docs
     \<and> list_all2 created_from (new_values (stored_ids s) (leadgen_values (payload_entries p))) docs
     \<and> length ts = length (leadgen_values (payload_entries p))
     \<and> realtime s' = realtime s @
          map2 (\<lambda>v t. notification v t (session_user s)) (leadgen_values (payload_entries p)) ts"
proof -
  let ?s0 = "meta_logger INFO [Lit ''Facebook Lead Event Payload: '', Dumps p] s"
  let ?vs = "leadgen_values (payload_entries p)"
  from handle_lead_event_wf[OF assms(3), of s]
  have wes: "list_all wf_entry (payload_entries p)"
    and h: "handle_lead_event (Inr p) s =
      (case process_entries (payload_entries p) ?s0 of
         (Some e, s2) \<Rightarrow> lead_event_failed e s2
       | (None, s2) \<Rightarrow>
           (Success, set_status 200
              (meta_logger INFO [Lit ''Facebook Lead Event processed successfully''] s2)))"
    by simp_all
  have p0: "doctype_facebook_lead ?s0" "\<forall>d. db_error ?s0 (InsertLead d) = None"
    using assms(1,2) by (simp_all add: meta_logger_def)
  have same0: "stored_ids ?s0 = stored_ids s" "leads ?s0 = leads s" "realtime ?s0 = realtime s"
    "session_user ?s0 = session_user s" "db_error ?s0 = db_error s"
    by (simp_all add: meta_logger_def stored_ids_def)
  from pes_store[OF p0 wes] obtain s1 docs ts where
    s1: "process_entries (payload_entries p) ?s0 = (None, s1)" "doctype_facebook_lead s1"
      "db_error s1 = db_error s" "session_user s1 = session_user s"
      "leads s1 = leads s @ docs"
      "list_all2 created_from (new_values (stored_ids s) ?vs) docs"
      "length ts = length ?vs"
      "realtime s1 = realtime s @ map2 (\<lambda>v t. notification v t (session_user s)) ?vs ts"
    unfolding same0 by blast
  let ?s' = "set_status 200
         (meta_logger INFO [Lit ''Facebook Lead Event processed successfully''] s1)"
  have r: "handle_lead_event (Inr p) s = (Success, ?s')"
    using h s1(1) by simp
  show ?thesis
    apply (rule exI[of _ ?s'], rule exI[of _ docs], rule exI[of _ ts])
    using r s1(2-8) by (simp add: set_status_def meta_logger_def)
qed

subsection \<open>Deduplication\<close>

lemma new_values_all_new:
  "distinct (map value_leadgen_id vs) \<Longrightarrow> value_leadgen_id ` set vs \<inter> S = {}
   \<Longrightarrow> new_values S vs = vs"
  by (induction vs arbitrary: S) auto

lemma new_values_count:
  "length (filter (\<lambda>v. value_leadgen_id v = L) (new_values S vs)) =
     (if L \<in> S then 0 else if L \<in> value_leadgen_id ` set vs then 1 else 0)"
proof (induction vs arbitrary: S)
  case Nil
  then show ?case by simp
next
  case (Cons v vs)
  show ?case
  proof (cases "value_leadgen_id v \<in> S")
    case True
    then show ?thesis using Cons.IH[of S] by auto
  next
    case False
    then show ?thesis using Cons.IH[of "insert (value_leadgen_id v) S"]
      by (auto split: if_splits)
  qed
qed

lemma created_from_count:
  assumes "list_all2 created_from xs docs"
  shows "length (filter (\<lambda>l. facebook_lead_id l = L) docs) =
         length (filter (\<lambda>v. value_leadgen_id v = L) xs)"
  using assms
  by (induction rule: list_all2_induct) (simp_all add: created_from_def value_leadgen_id_def)

lemma stored_iff_leads_with: "L \<in> stored_ids s \<longleftrightarrow> leads_with L s \<noteq> []"
  by (auto simp: stored_ids_def leads_with_def filter_empty_conv)

subsection \<open>The concrete payload and site\<close>

lemmas payload_defs = two_leads_payload_def page_payload_def leadgen_change_def
  wf_payload_def wf_entry_def wf_change_def is_dict_def dict_get_def py_get_def is_leadgen_def
  change_value_def leadgen_values_def payload_entries_def entry_leadgen_values_def
  entry_changes_def value_leadgen_id_def

lemma two_leads_payload_wf: "wf_payload two_leads_payload"
  by (simp add: payload_defs)

lemma two_leads_payload_ids:
  "map value_leadgen_id (leadgen_values (payload_entries two_leads_payload)) = [JStr ''L1'', JStr ''L2'']"
  by (simp add: payload_defs)

lemma example_site_ok:
  "doctype_facebook_lead example_site" "\<forall>d. db_error example_site (InsertLead d) = None"
  "stored_ids example_site = {}" "leads example_site = []" "realtime example_site = []"
  by (simp_all add: example_site_def stored_ids_def)

subsection \<open>Exceptions do not depend on the site\<close>









subsection \<open>Notifications on any site\<close>





subsection \<open>A failing insert, and the end of the loop\<close>





subsection \<open>The handshake\<close>

lemma validate_active [simp]:
  "settings_validate (d\<lparr>webhook_is_active := n\<rparr>) = settings_validate d"
  by (simp add: settings_validate_def)

lemma hv_not_verified:
  assumes "\<not> verified r s"
  shows "fst (handle_verification r s) = Inr NoneVal
     \<and> (\<exists>msg. web_page (snd (handle_verification r s)) = Some (''Facebook Webhook Error'', msg, False))"
  using assms
  by (auto simp add: verified_def handle_verification_def Let_def eff_defs)

lemma hv_saved:
  assumes "verified r s" "activation_saved s"
  shows "fst (handle_verification r s) = Inr (Response (args_get r ''hub.challenge'') 200 ''text/plain'')
     \<and> the_settings (snd (handle_verification r s)) = (the_settings s)\<lparr>webhook_is_active := 1\<rparr>"
  using assms
  by (simp add: verified_def activation_saved_def handle_verification_def Let_def
      save_settings_def eff_defs)

lemma hv_not_saved:
  assumes "verified r s" "\<not> activation_saved s"
  shows "\<exists>e. fst (handle_verification r s) = Inl e"
  using assms
  by (auto simp add: verified_def activation_saved_def handle_verification_def Let_def
      save_settings_def eff_defs split: option.splits)

lemma hv_fst:
  "(fst (handle_verification r s) = Inr (Response b c m)) =
     (verified r s \<and> activation_saved s \<and> b = args_get r ''hub.challenge'' \<and> c = 200
      \<and> m = ''text/plain'')"
proof (cases "verified r s")
  case False
  then show ?thesis using hv_not_verified[OF False] by simp
next
  case True
  show ?thesis
  proof (cases "activation_saved s")
    case True
    then show ?thesis using hv_saved[OF \<open>verified r s\<close> True] \<open>verified r s\<close> by auto
  next
    case False
    then show ?thesis using hv_not_saved[OF True False] by auto
  qed
qed

lemma hw_get:
  assumes "req_method r = ''GET''"
  shows "\<exists>s0. the_settings s0 = the_settings s \<and> db_error s0 = db_error s
      \<and> handle_webhook r s =
         (case handle_verification r s0 of
            (Inr v, s8) \<Rightarrow> (v, s8)
          | (Inl e, s8) \<Rightarrow>
             (Envelope (Error (str_exc e)),
              set_status 500
                (log_both ERROR [Lit ''Facebook Webhook Error: '', Lit (str_exc e)] s8)))"
  apply (simp add: handle_webhook_def Let_def assms)
  apply (rule exI, rule conjI[rotated], rule conjI[rotated], rule refl)
  apply (simp_all add: eff_defs)
  done

lemmas request_defs = subscribe_request_def wrong_token_request_def args_get_def

lemma example_verified:
  "verified subscribe_request example_site" "activation_saved example_site"
  "\<not> verified wrong_token_request example_site"
  "verified subscribe_request site_incomplete_settings"
  "\<not> activation_saved site_incomplete_settings"
  by (simp_all add: verified_def activation_saved_def request_defs example_site_def
      example_settings_def site_incomplete_settings_def settings_validate_def)

subsection \<open>Webhook documents\<close>

lemma save_webhook_call_api:
  "save_webhook d (call_api c s) =
     (case save_webhook d s of Inl e \<Rightarrow> Inl e | Inr s' \<Rightarrow> Inr (call_api c s'))"
  by (simp add: save_webhook_def call_api_def webhook_validate_def split: option.splits)

lemma save_webhook_stored:
  "save_webhook d s = Inr s' \<Longrightarrow> s' = s\<lparr>stored_webhook := Some d\<rparr>"
  by (simp add: save_webhook_def split: option.splits)

lemma call_api_fields [simp]:
  "api_create (call_api c s) = api_create s" "api_install (call_api c s) = api_install s"
  "api_delete (call_api c s) = api_delete s" "the_settings (call_api c s) = the_settings s"
  "stored_webhook (call_api c s) = stored_webhook s" "error_log (call_api c s) = error_log s"
  "api_calls (call_api c s) = api_calls s @ [c]" "db_error (call_api c s) = db_error s"
  by (simp_all add: call_api_def)

lemma subscription_tokens_append:
  "subscription_tokens (xs @ ys) = subscription_tokens xs @ subscription_tokens ys"
  by (induction xs rule: subscription_tokens.induct) simp_all

lemma subscribe_webhook_token:
  "wh_verify_token (fst (snd (subscribe_webhook d s))) = wh_verify_token d
   \<and> subscription_tokens (api_calls (snd (snd (subscribe_webhook d s)))) =
       subscription_tokens (api_calls s) @ [wh_verify_token d]
   \<and> (stored_webhook (snd (snd (subscribe_webhook d s))) = stored_webhook s
      \<or> map_option wh_verify_token (stored_webhook (snd (snd (subscribe_webhook d s))))
          = Some (wh_verify_token d))"
  by (auto simp add: subscribe_webhook_def subscribe_failed_def Let_def save_webhook_call_api
      subscription_tokens_append split: sum.splits option.splits dest!: save_webhook_stored)

lemma unsubscribe_webhook_token:
  "wh_verify_token (fst (snd (unsubscribe_webhook d s))) = wh_verify_token d
   \<and> subscription_tokens (api_calls (snd (snd (unsubscribe_webhook d s)))) =
       subscription_tokens (api_calls s)
   \<and> (stored_webhook (snd (snd (unsubscribe_webhook d s))) = stored_webhook s
      \<or> map_option wh_verify_token (stored_webhook (snd (snd (unsubscribe_webhook d s))))
          = Some (wh_verify_token d))"
  by (auto simp add: unsubscribe_webhook_def unsubscribe_failed_def Let_def save_webhook_call_api
      subscription_tokens_append split: sum.splits option.splits dest!: save_webhook_stored)

lemma on_update_token:
  "wh_verify_token (fst (snd (on_update d before s))) = wh_verify_token d
   \<and> subscription_tokens (api_calls (snd (snd (on_update d before s)))) =
       subscription_tokens (api_calls s) @
         (if has_value_changed_enabled d before \<and> wh_enabled d \<noteq> 0 then [wh_verify_token d] else [])
   \<and> (stored_webhook (snd (snd (on_update d before s))) = stored_webhook s
      \<or> map_option wh_verify_token (stored_webhook (snd (snd (on_update d before s))))
          = Some (wh_verify_token d))"
  using subscribe_webhook_token[of d s] unsubscribe_webhook_token[of d s]
  by (simp add: on_update_def)

lemma disabled_webhook_stored: "stored_webhook site_disabled_webhook = Some (example_webhook\<lparr>wh_enabled := 0\<rparr>)
     \<and> wh_verify_token example_webhook = wh_verify_token (example_webhook\<lparr>wh_enabled := 0\<rparr>)"
    by (simp add: site_disabled_webhook_def)

lemma disabled_webhook_valid: "webhook_validate example_webhook site_disabled_webhook = None"
  by (simp add: webhook_validate_def example_webhook_def
        site_disabled_webhook_def example_site_def example_settings_def)

lemma disabled_webhook_db: "db_error site_disabled_webhook w = None"
  by (simp add: site_disabled_webhook_def example_site_def)

lemma disabled_webhook_saves: "\<exists>s1. save_webhook example_webhook site_disabled_webhook = Inr s1"
    by (simp add: save_webhook_def disabled_webhook_valid disabled_webhook_db)

lemma disabled_webhook_changed: "has_value_changed_enabled example_webhook (stored_webhook site_disabled_webhook)
      \<and> wh_enabled example_webhook \<noteq> 0"
    by (simp add: has_value_changed_enabled_def site_disabled_webhook_def example_webhook_def)

lemma disabled_webhook_facts: "api_calls site_disabled_webhook = []"
    "wh_verify_token example_webhook = Some ''0123456789abcdef0123456789abcdef''"
    by (simp_all add: site_disabled_webhook_def example_site_def example_webhook_def)

lemma update_webhook_stored_token:
  "stored_webhook (snd (snd (update_webhook d s))) = stored_webhook s
   \<or> map_option wh_verify_token (stored_webhook (snd (snd (update_webhook d s))))
       = Some (wh_verify_token d)"
proof (cases "save_webhook d s")
  case (Inl e)
  then show ?thesis by (simp add: update_webhook_def)
next
  case (Inr s1)
  then have "stored_webhook s1 = Some d" by (auto dest!: save_webhook_stored)
  then show ?thesis using Inr on_update_token[of d "stored_webhook s" s1]
    by (auto simp add: update_webhook_def)
qed

subsection \<open>At most one lead per id\<close>

lemma cfl_distinct:
  assumes "distinct (map facebook_lead_id (leads s))"
  shows "distinct (map facebook_lead_id (leads (create_facebook_lead l p f v s)))"
  using assms
  by (auto simp add: create_facebook_lead_def db_exists_lead_def eff_defs Let_def
      split: sum.splits option.splits prod.splits)

lemma process_change_distinct:
  assumes "distinct (map facebook_lead_id (leads s))"
  shows "distinct (map facebook_lead_id (leads (snd (process_change c s))))"
proof -
  have m: "leads (meta_logger l m s) = leads s" for l m s by (simp add: meta_logger_def)
  show ?thesis using assms
    by (auto simp add: process_change_def Let_def m utils_now_def publish_realtime_def
        intro!: cfl_distinct split: sum.splits prod.splits)
qed

lemma process_changes_distinct:
  "distinct (map facebook_lead_id (leads s))
   \<Longrightarrow> distinct (map facebook_lead_id (leads (snd (process_changes cs s))))"
proof (induction cs arbitrary: s)
  case Nil
  then show ?case by simp
next
  case (Cons c cs)
  obtain x s1 where a: "process_change c s = (x, s1)" by (cases "process_change c s")
  have d1: "distinct (map facebook_lead_id (leads s1))"
    using process_change_distinct[OF Cons.prems, of c] a by simp
  show ?case using a d1 Cons.IH[OF d1] by (cases x) simp_all
qed

lemma process_entry_distinct:
  assumes "distinct (map facebook_lead_id (leads s))"
  shows "distinct (map facebook_lead_id (leads (snd (process_entry e s))))"
proof -
  have m: "leads (meta_logger l m s) = leads s" for l m s by (simp add: meta_logger_def)
  show ?thesis using assms
    by (auto simp add: process_entry_def Let_def m intro!: process_changes_distinct
        split: sum.splits)
qed

lemma process_entries_distinct:
  "distinct (map facebook_lead_id (leads s))
   \<Longrightarrow> distinct (map facebook_lead_id (leads (snd (process_entries es s))))"
proof (induction es arbitrary: s)
  case Nil
  then show ?case by simp
next
  case (Cons e es)
  obtain x s1 where a: "process_entry e s = (x, s1)" by (cases "process_entry e s")
  have d1: "distinct (map facebook_lead_id (leads s1))"
    using process_entry_distinct[OF Cons.prems, of e] a by simp
  show ?case using a d1 Cons.IH[OF d1] by (cases x) simp_all
qed

section \<open>Malformed bodies\<close>

text \<open>
  C3, as the code has it. When \<^verbatim>\<open>get_json()\<close> yields \<^verbatim>\<open>None\<close> for the body (the
  JSON literal \<^verbatim>\<open>null\<close>, or a body for which the library returns \<^verbatim>\<open>None\<close>),
  \<^verbatim>\<open>handle_lead_event\<close> sets the status code 400 and returns
  \<^verbatim>\<open>{"error": "Invalid payload"}\<close>. When \<^verbatim>\<open>get_json()\<close> raises \<open>e\<close> on the body, the
  \<^verbatim>\<open>except\<close> branch sets the status code 500 and returns \<^verbatim>\<open>{"error": str(e)}\<close>.
  In both cases nothing is stored and nothing is published.
\<close>

theorem handle_lead_event_invalid_body:
  "fst (handle_lead_event (Inr JNull) s) = Error ''Invalid payload''
   \<and> status_code (snd (handle_lead_event (Inr JNull) s)) = Some 400
   \<and> leads (snd (handle_lead_event (Inr JNull) s)) = leads s
   \<and> realtime (snd (handle_lead_event (Inr JNull) s)) = realtime s
   \<and> fst (handle_lead_event (Inl e) s) = Error (str_exc e)
   \<and> status_code (snd (handle_lead_event (Inl e) s)) = Some 500
   \<and> leads (snd (handle_lead_event (Inl e) s)) = leads s
   \<and> realtime (snd (handle_lead_event (Inl e) s)) = realtime s"
  by (simp add: handle_lead_event_def lead_event_failed_def eff_defs)

text \<open>
  C3 as stated promises 400 for a body that is not JSON. On such a body
  \<^verbatim>\<open>get_json()\<close> raises inside the \<^verbatim>\<open>try\<close>, and the answer is 500 with the message
  of the exception, not \<^verbatim>\<open>Invalid payload\<close>.
\<close>

theorem undecodable_body_is_500:
  "fst (handle_lead_event (Inl (BadRequest ''400 Bad Request: Failed to decode JSON object'')) example_site)
     = Error ''400 Bad Request: Failed to decode JSON object''
   \<and> fst (handle_lead_event (Inl (BadRequest ''400 Bad Request: Failed to decode JSON object'')) example_site)
     \<noteq> Error ''Invalid payload''
   \<and> status_code (snd (handle_lead_event
         (Inl (BadRequest ''400 Bad Request: Failed to decode JSON object'')) example_site)) = Some 500"
  by (simp add: handle_lead_event_def lead_event_failed_def eff_defs)

section \<open>A missing DocType\<close>

text \<open>
  C10. If the DocType \<^verbatim>\<open>Facebook Lead\<close> does not exist, a well-formed page payload is
  still answered with status 200 and \<^verbatim>\<open>{"success": True}\<close>. No lead is stored; each
  leadgen change logs the warning once in each log and no error is logged; and the
  notification of every leadgen change is still published, in order, for the session's user.
\<close>

theorem missing_doctype_still_acknowledged:
  assumes "\<not> doctype_facebook_lead s" and "wf_payload p"
  shows "fst (handle_lead_event (Inr p) s) = Success
     \<and> status_code (snd (handle_lead_event (Inr p) s)) = Some 200
     \<and> leads (snd (handle_lead_event (Inr p) s)) = leads s
     \<and> (\<exists>ts. length ts = length (leadgen_values (payload_entries p))
           \<and> realtime (snd (handle_lead_event (Inr p) s)) =
               realtime s @ map2 (\<lambda>v t. notification v t (session_user s))
                               (leadgen_values (payload_entries p)) ts)
     \<and> entries_at WARNING (meta_log (snd (handle_lead_event (Inr p) s))) =
         entries_at WARNING (meta_log s)
           @ replicate (length (leadgen_values (payload_entries p))) skip_msg
     \<and> entries_at WARNING (app_log (snd (handle_lead_event (Inr p) s))) =
         entries_at WARNING (app_log s)
           @ replicate (length (leadgen_values (payload_entries p))) skip_msg
     \<and> entries_at ERROR (meta_log (snd (handle_lead_event (Inr p) s))) = entries_at ERROR (meta_log s)
     \<and> entries_at ERROR (app_log (snd (handle_lead_event (Inr p) s))) = entries_at ERROR (app_log s)"
  using ingest_without_doctype[OF assms] by simp

theorem missing_doctype_still_acknowledged_witness:
  "\<not> doctype_facebook_lead (example_site\<lparr>doctype_facebook_lead := False\<rparr>)
   \<and> wf_payload (page_payload [leadgen_change ''L1'', leadgen_change ''L2''])
   \<and> fst (handle_lead_event (Inr (page_payload [leadgen_change ''L1'', leadgen_change ''L2'']))
            (example_site\<lparr>doctype_facebook_lead := False\<rparr>)) = Success
   \<and> leads (snd (handle_lead_event (Inr (page_payload [leadgen_change ''L1'', leadgen_change ''L2'']))
            (example_site\<lparr>doctype_facebook_lead := False\<rparr>))) = []
   \<and> entries_at WARNING (meta_log (snd (handle_lead_event
          (Inr (page_payload [leadgen_change ''L1'', leadgen_change ''L2'']))
          (example_site\<lparr>doctype_facebook_lead := False\<rparr>)))) = [skip_msg, skip_msg]"
proof -
  have a: "\<not> doctype_facebook_lead (example_site\<lparr>doctype_facebook_lead := False\<rparr>)"
    by simp
  have b: "wf_payload (page_payload [leadgen_change ''L1'', leadgen_change ''L2''])"
    by (simp add: wf_payload_def page_payload_def leadgen_change_def is_dict_def dict_get_def
        py_get_def wf_entry_def wf_change_def is_leadgen_def change_value_def)
  have n: "length (leadgen_values (payload_entries
             (page_payload [leadgen_change ''L1'', leadgen_change ''L2'']))) = 2"
    by (simp add: leadgen_values_def payload_entries_def page_payload_def leadgen_change_def
        dict_get_def py_get_def entry_leadgen_values_def entry_changes_def is_leadgen_def)
  have l: "leads example_site = []" "meta_log example_site = []"
    by (simp_all add: example_site_def)
  show ?thesis
    using a b missing_doctype_still_acknowledged[OF a b] n l
    by (simp add: numeral_2_eq_2)
qed

section \<open>New leads and their notifications\<close>

text \<open>
  C4, as the code has it. Let the DocType \<^verbatim>\<open>Facebook Lead\<close> exist and the store accept
  every insert. For a well-formed page payload whose leadgen changes carry pairwise
  distinct \<^verbatim>\<open>leadgen_id\<close>s, none of them stored, \<^verbatim>\<open>handle_lead_event\<close> answers
  200 with the success envelope, appends exactly one record per leadgen change (status
  \<^verbatim>\<open>New\<close>, the identifiers and the raw value of its change) and publishes exactly one
  notification per leadgen change, each with the \<^verbatim>\<open>leadgen_id\<close>, \<^verbatim>\<open>page_id\<close> and
  \<^verbatim>\<open>form_id\<close> of its change and a timestamp, for the session's user.
\<close>

theorem new_leads_and_notifications:
  assumes "doctype_facebook_lead s" and "\<forall>d. db_error s (InsertLead d) = None"
    and "wf_payload p"
    and "distinct (map value_leadgen_id (leadgen_values (payload_entries p)))"
    and "value_leadgen_id ` set (leadgen_values (payload_entries p)) \<inter> stored_ids s = {}"
  shows "fst (handle_lead_event (Inr p) s) = Success
     \<and> status_code (snd (handle_lead_event (Inr p) s)) = Some 200
     \<and> (\<exists>docs. leads (snd (handle_lead_event (Inr p) s)) = leads s @ docs
            \<and> list_all2 created_from (leadgen_values (payload_entries p)) docs)
     \<and> length (leads (snd (handle_lead_event (Inr p) s))) =
         length (leads s) + length (leadgen_values (payload_entries p))
     \<and> (\<exists>ts. length ts = length (leadgen_values (payload_entries p))
           \<and> realtime (snd (handle_lead_event (Inr p) s)) =
               realtime s @ map2 (\<lambda>v t. notification v t (session_user s))
                               (leadgen_values (payload_entries p)) ts)
     \<and> length (realtime (snd (handle_lead_event (Inr p) s))) =
         length (realtime s) + length (leadgen_values (payload_entries p))"
proof -
  let ?vs = "leadgen_values (payload_entries p)"
  from ingest_store[OF assms(1,2,3)] obtain s' docs ts where
    s': "handle_lead_event (Inr p) s = (Success, s')" "status_code s' = Some 200"
      "leads s' = leads s @ docs"
      "list_all2 created_from (new_values (stored_ids s) ?vs) docs"
      "length ts = length ?vs"
      "realtime s' = realtime s @ map2 (\<lambda>v t. notification v t (session_user s)) ?vs ts"
    by blast
  have nv: "new_values (stored_ids s) ?vs = ?vs"
    by (rule new_values_all_new[OF assms(4,5)])
  have cr: "list_all2 created_from ?vs docs" using s'(4) nv by simp
  then have ld: "length docs = length ?vs" by (simp add: list_all2_lengthD)
  have a: "\<exists>docs. leads (snd (handle_lead_event (Inr p) s)) = leads s @ docs
            \<and> list_all2 created_from ?vs docs"
    using s'(1,3) cr by auto
  have b: "\<exists>ts. length ts = length ?vs
           \<and> realtime (snd (handle_lead_event (Inr p) s)) =
               realtime s @ map2 (\<lambda>v t. notification v t (session_user s)) ?vs ts"
    using s'(1,5,6) by auto
  show ?thesis using a b s'(1,2,3,5,6) ld by simp
qed

theorem new_leads_and_notifications_witness:
  "doctype_facebook_lead example_site
   \<and> (\<forall>d. db_error example_site (InsertLead d) = None)
   \<and> wf_payload two_leads_payload
   \<and> distinct (map value_leadgen_id (leadgen_values (payload_entries two_leads_payload)))
   \<and> value_leadgen_id ` set (leadgen_values (payload_entries two_leads_payload))
        \<inter> stored_ids example_site = {}
   \<and> fst (handle_lead_event (Inr two_leads_payload) example_site) = Success
   \<and> length (leads (snd (handle_lead_event (Inr two_leads_payload) example_site))) = 2
   \<and> length (realtime (snd (handle_lead_event (Inr two_leads_payload) example_site))) = 2"
proof -
  have d: "distinct (map value_leadgen_id (leadgen_values (payload_entries two_leads_payload)))"
    by (simp add: two_leads_payload_ids)
  have e: "value_leadgen_id ` set (leadgen_values (payload_entries two_leads_payload))
        \<inter> stored_ids example_site = {}"
    by (simp add: example_site_ok)
  have n: "length (leadgen_values (payload_entries two_leads_payload)) = 2"
    using arg_cong[OF two_leads_payload_ids, of length] by simp
  show ?thesis
    using new_leads_and_notifications[OF example_site_ok(1,2) two_leads_payload_wf d e]
      example_site_ok two_leads_payload_wf d e n
    by simp
qed

text \<open>
  C4 as stated does not mention the DocType: on a site without it the same payload, with
  two distinct leadgen ids and nothing stored, creates no record at all.
\<close>

theorem no_new_lead_without_doctype:
  "wf_payload two_leads_payload
   \<and> length (leadgen_values (payload_entries two_leads_payload)) = 2
   \<and> distinct (map value_leadgen_id (leadgen_values (payload_entries two_leads_payload)))
   \<and> value_leadgen_id ` set (leadgen_values (payload_entries two_leads_payload))
        \<inter> stored_ids site_without_doctype = {}
   \<and> leads (snd (handle_lead_event (Inr two_leads_payload) site_without_doctype)) =
        leads site_without_doctype"
proof -
  have n: "length (leadgen_values (payload_entries two_leads_payload)) = 2"
    using arg_cong[OF two_leads_payload_ids, of length] by simp
  have d: "distinct (map value_leadgen_id (leadgen_values (payload_entries two_leads_payload)))"
    by (simp add: two_leads_payload_ids)
  have s: "stored_ids site_without_doctype = {}"
    by (simp add: site_without_doctype_def example_site_def stored_ids_def)
  have nd: "\<not> doctype_facebook_lead site_without_doctype"
    by (simp add: site_without_doctype_def)
  show ?thesis
    using two_leads_payload_wf n d s ingest_without_doctype[OF nd two_leads_payload_wf] by simp
qed

section \<open>Idempotent ingestion\<close>

text \<open>
  C2, as the code has it. Let the DocType \<^verbatim>\<open>Facebook Lead\<close> exist and the store accept
  every insert, and let the table hold at most one lead with the id \<open>L\<close>. After two
  well-formed page payloads that both carry a leadgen change with \<open>L\<close>, exactly one lead
  with \<open>L\<close> is stored: the first delivery leaves exactly one, and the second leaves the
  leads with \<open>L\<close> as they are.
\<close>

theorem one_record_per_leadgen_id:
  assumes "doctype_facebook_lead s" and "\<forall>d. db_error s (InsertLead d) = None"
    and "wf_payload p1" and "wf_payload p2"
    and "L \<in> value_leadgen_id ` set (leadgen_values (payload_entries p1))"
    and "L \<in> value_leadgen_id ` set (leadgen_values (payload_entries p2))"
    and "length (leads_with L s) \<le> 1"
  shows "length (leads_with L (snd (handle_lead_event (Inr p1) s))) = 1
     \<and> leads_with L (snd (handle_lead_event (Inr p2) (snd (handle_lead_event (Inr p1) s))))
         = leads_with L (snd (handle_lead_event (Inr p1) s))
     \<and> length (leads_with L
         (snd (handle_lead_event (Inr p2) (snd (handle_lead_event (Inr p1) s))))) = 1"
proof -
  let ?v1 = "leadgen_values (payload_entries p1)"
  let ?v2 = "leadgen_values (payload_entries p2)"
  from ingest_store[OF assms(1,2,3)] obtain s1 d1 where
    s1: "handle_lead_event (Inr p1) s = (Success, s1)" "doctype_facebook_lead s1"
      "db_error s1 = db_error s" "leads s1 = leads s @ d1"
      "list_all2 created_from (new_values (stored_ids s) ?v1) d1"
    by blast
  have c1: "length (filter (\<lambda>l. facebook_lead_id l = L) d1) =
      (if L \<in> stored_ids s then 0 else 1)"
    using created_from_count[OF s1(5), of L] new_values_count[of L "stored_ids s" ?v1] assms(5)
    by simp
  have w1: "leads_with L s1 = leads_with L s @ filter (\<lambda>l. facebook_lead_id l = L) d1"
    using s1(4) by (simp add: leads_with_def)
  have one: "length (leads_with L s1) = 1"
  proof (cases "L \<in> stored_ids s")
    case True
    then have "leads_with L s \<noteq> []" by (simp add: stored_iff_leads_with)
    then have "length (leads_with L s) = 1" using assms(7)
      by (cases "leads_with L s") simp_all
    then show ?thesis using w1 c1 True by simp
  next
    case False
    then have "leads_with L s = []" by (simp add: stored_iff_leads_with)
    then show ?thesis using w1 c1 False by simp
  qed
  then have st: "L \<in> stored_ids s1" by (auto simp: stored_iff_leads_with)
  have ne: "\<forall>d. db_error s1 (InsertLead d) = None" using s1(3) assms(2) by simp
  from ingest_store[OF s1(2) ne assms(4)] obtain s2 d2 where
    s2: "handle_lead_event (Inr p2) s1 = (Success, s2)" "leads s2 = leads s1 @ d2"
      "list_all2 created_from (new_values (stored_ids s1) ?v2) d2"
    by blast
  have c2: "length (filter (\<lambda>l. facebook_lead_id l = L) d2) = 0"
    using created_from_count[OF s2(3), of L] new_values_count[of L "stored_ids s1" ?v2] st
    by simp
  have w2: "leads_with L s2 = leads_with L s1"
    using s2(2) c2 by (simp add: leads_with_def)
  show ?thesis using s1(1) s2(1) one w2 by simp
qed

theorem one_record_per_leadgen_id_witness:
  "doctype_facebook_lead example_site
   \<and> (\<forall>d. db_error example_site (InsertLead d) = None)
   \<and> wf_payload two_leads_payload
   \<and> JStr ''L1'' \<in> value_leadgen_id ` set (leadgen_values (payload_entries two_leads_payload))
   \<and> length (leads_with (JStr ''L1'') example_site) \<le> 1
   \<and> length (leads_with (JStr ''L1'')
        (snd (handle_lead_event (Inr two_leads_payload)
           (snd (handle_lead_event (Inr two_leads_payload) example_site))))) = 1"
proof -
  have m: "JStr ''L1'' \<in> value_leadgen_id ` set (leadgen_values (payload_entries two_leads_payload))"
    using arg_cong[OF two_leads_payload_ids, of set] by simp
  have l: "length (leads_with (JStr ''L1'') example_site) \<le> 1"
    by (simp add: leads_with_def example_site_ok)
  show ?thesis
    using one_record_per_leadgen_id[OF example_site_ok(1,2) two_leads_payload_wf
        two_leads_payload_wf m m l] example_site_ok two_leads_payload_wf m l
    by simp
qed

text \<open>
  C2 as stated does not mention the DocType: on a site without it, two deliveries of a
  payload that carries \<^verbatim>\<open>L1\<close> leave no lead with that id.
\<close>

theorem no_record_without_doctype:
  "wf_payload two_leads_payload
   \<and> JStr ''L1'' \<in> value_leadgen_id ` set (leadgen_values (payload_entries two_leads_payload))
   \<and> leads_with (JStr ''L1'') site_without_doctype = []
   \<and> length (leads_with (JStr ''L1'')
        (snd (handle_lead_event (Inr two_leads_payload)
           (snd (handle_lead_event (Inr two_leads_payload) site_without_doctype))))) = 0"
proof -
  let ?s1 = "snd (handle_lead_event (Inr two_leads_payload) site_without_doctype)"
  have m: "JStr ''L1'' \<in> value_leadgen_id ` set (leadgen_values (payload_entries two_leads_payload))"
    using arg_cong[OF two_leads_payload_ids, of set] by simp
  have nd: "\<not> doctype_facebook_lead site_without_doctype"
    by (simp add: site_without_doctype_def)
  have l0: "leads site_without_doctype = []"
    by (simp add: site_without_doctype_def example_site_def)
  have a: "\<not> doctype_facebook_lead ?s1" "leads ?s1 = []"
    using ingest_without_doctype[OF nd two_leads_payload_wf] l0 by simp_all
  have b: "leads (snd (handle_lead_event (Inr two_leads_payload) ?s1)) = []"
    using ingest_without_doctype[OF a(1) two_leads_payload_wf] a(2) by simp
  show ?thesis using two_leads_payload_wf m l0 b by (simp add: leads_with_def)
qed

section \<open>Objects other than a page\<close>

text \<open>
  C5. For every parsed payload that is an object whose \<^verbatim>\<open>object\<close> field is not
  \<^verbatim>\<open>"page"\<close>, \<^verbatim>\<open>handle_lead_event\<close> sets the status code 200 and returns
  \<^verbatim>\<open>{"success": True}\<close>. Apart from the status code and two lines of the meta log the
  site is as it was: no lead is created and nothing is published, whatever the payload
  holds under \<^verbatim>\<open>entry\<close>, which is never iterated.
\<close>

theorem non_page_object_acknowledged:
  assumes "map_of kvs ''object'' = Some obj" and "obj \<noteq> JStr ''page''"
  shows "fst (handle_lead_event (Inr (JObj kvs)) s) = Success
     \<and> status_code (snd (handle_lead_event (Inr (JObj kvs)) s)) = Some 200
     \<and> (snd (handle_lead_event (Inr (JObj kvs)) s))
           \<lparr>meta_log := meta_log s, status_code := status_code s\<rparr> = s
     \<and> meta_log (snd (handle_lead_event (Inr (JObj kvs)) s)) =
          meta_log s @ [(INFO, [Lit ''Facebook Lead Event Payload: '', Dumps (JObj kvs)]),
                        (INFO, [Lit ''Non-page event received: '', Str obj])]"
proof -
  have ne: "kvs \<noteq> []" using assms(1) by auto
  show ?thesis using assms ne
    by (simp add: handle_lead_event_def py_get_def set_status_def meta_logger_def)
qed

theorem non_page_object_acknowledged_witness:
  "map_of [(''object'', JStr ''instagram''), (''entry'', JInt 5)] ''object'' = Some (JStr ''instagram'')
   \<and> JStr ''instagram'' \<noteq> JStr ''page''
   \<and> fst (handle_lead_event (Inr (JObj [(''object'', JStr ''instagram''), (''entry'', JInt 5)]))
            example_site) = Success
   \<and> leads (snd (handle_lead_event (Inr (JObj [(''object'', JStr ''instagram''), (''entry'', JInt 5)]))
            example_site)) = []"
proof -
  have a: "map_of [(''object'', JStr ''instagram''), (''entry'', JInt 5)] ''object'' = Some (JStr ''instagram'')"
    by simp
  have b: "JStr ''instagram'' \<noteq> JStr ''page''" by simp
  have "leads ((snd (handle_lead_event (Inr (JObj [(''object'', JStr ''instagram''), (''entry'', JInt 5)]))
            example_site))\<lparr>meta_log := meta_log example_site, status_code := status_code example_site\<rparr>)
        = leads example_site"
    using non_page_object_acknowledged[OF a b, of example_site] by simp
  then have l: "leads (snd (handle_lead_event (Inr (JObj [(''object'', JStr ''instagram''), (''entry'', JInt 5)]))
            example_site)) = []"
    by (simp add: example_site_ok)
  show ?thesis using a b l non_page_object_acknowledged[OF a b, of example_site] by simp
qed

section \<open>Failures inside and outside record creation\<close>




section \<open>The verification handshake\<close>

text \<open>
  C1, as the code has it. \<^verbatim>\<open>handle_verification\<close> returns the challenge as a
  \<^verbatim>\<open>text/plain\<close> response with status 200 if and only if the feature is enabled, the
  token equals the stored \<^verbatim>\<open>webhook_verify_token\<close>, the mode is \<^verbatim>\<open>subscribe\<close>, and
  the save of the settings marked active succeeds; the settings are then stored with
  \<^verbatim>\<open>webhook_is_active = 1\<close>. When one of the three conditions fails, it returns
  nothing and sets the error page. When they hold and the save raises, it raises, and
  the endpoint answers 500 with the error envelope. The endpoint returns a response
  object for a GET only in the first case, so the challenge is never echoed otherwise.
\<close>

theorem challenge_echoed_iff:
  "(fst (handle_verification r s) = Inr (Response (args_get r ''hub.challenge'') 200 ''text/plain''))
      = (verified r s \<and> activation_saved s)
   \<and> (verified r s \<and> activation_saved s
      \<longrightarrow> the_settings (snd (handle_verification r s)) = (the_settings s)\<lparr>webhook_is_active := 1\<rparr>)
   \<and> (\<not> verified r s
      \<longrightarrow> fst (handle_verification r s) = Inr NoneVal
        \<and> (\<exists>msg. web_page (snd (handle_verification r s)) =
                   Some (''Facebook Webhook Error'', msg, False)))
   \<and> (verified r s \<and> \<not> activation_saved s \<longrightarrow> (\<exists>e. fst (handle_verification r s) = Inl e))
   \<and> (req_method r = ''GET''
      \<longrightarrow> is_response (fst (handle_webhook r s)) = (verified r s \<and> activation_saved s)
        \<and> (fst (handle_webhook r s) = Response (args_get r ''hub.challenge'') 200 ''text/plain'')
            = (verified r s \<and> activation_saved s)
        \<and> (if verified r s \<and> \<not> activation_saved s
            then (\<exists>m. fst (handle_webhook r s) = Envelope (Error m))
                 \<and> status_code (snd (handle_webhook r s)) = Some 500
            else True))"
proof (intro conjI impI)
  show "(fst (handle_verification r s) = Inr (Response (args_get r ''hub.challenge'') 200 ''text/plain''))
      = (verified r s \<and> activation_saved s)"
    by (simp add: hv_fst)
next
  assume "verified r s \<and> activation_saved s"
  then show "the_settings (snd (handle_verification r s)) = (the_settings s)\<lparr>webhook_is_active := 1\<rparr>"
    using hv_saved[of r s] by simp
next
  assume a: "\<not> verified r s"
  from hv_not_verified[OF a] show "fst (handle_verification r s) = Inr NoneVal" by simp
  from hv_not_verified[OF a]
  show "\<exists>msg. web_page (snd (handle_verification r s)) = Some (''Facebook Webhook Error'', msg, False)"
    by simp
next
  assume "verified r s \<and> \<not> activation_saved s"
  then show "\<exists>e. fst (handle_verification r s) = Inl e" using hv_not_saved[of r s] by simp
next
  assume g: "req_method r = ''GET''"
  from hw_get[OF g, of s] obtain s0 where
    fr: "the_settings s0 = the_settings s" "db_error s0 = db_error s"
    and hw: "handle_webhook r s =
         (case handle_verification r s0 of
            (Inr v, s8) \<Rightarrow> (v, s8)
          | (Inl e, s8) \<Rightarrow>
             (Envelope (Error (str_exc e)),
              set_status 500
                (log_both ERROR [Lit ''Facebook Webhook Error: '', Lit (str_exc e)] s8)))"
    by blast
  have s0: "verified r s0 = verified r s" "activation_saved s0 = activation_saved s"
      "handle_webhook r s =
         (case handle_verification r s0 of
            (Inr v, s8) \<Rightarrow> (v, s8)
          | (Inl e, s8) \<Rightarrow>
             (Envelope (Error (str_exc e)),
              set_status 500
                (log_both ERROR [Lit ''Facebook Webhook Error: '', Lit (str_exc e)] s8)))"
    using fr hw by (simp_all add: verified_def activation_saved_def)
  obtain x s8 where hv: "handle_verification r s0 = (x, s8)" by (cases "handle_verification r s0")
  have fx: "fst (handle_verification r s0) = x" using hv by simp
  show "is_response (fst (handle_webhook r s)) = (verified r s \<and> activation_saved s)"
  proof (cases "verified r s0")
    case False
    then show ?thesis using hv_not_verified[OF False] s0 hv by (simp add: is_response_def)
  next
    case True
    show ?thesis
    proof (cases "activation_saved s0")
      case True
      then show ?thesis using hv_saved[OF \<open>verified r s0\<close> True] \<open>verified r s0\<close> s0 hv
        by (simp add: is_response_def)
    next
      case False
      then show ?thesis using hv_not_saved[OF True False] s0 hv by (auto simp add: is_response_def)
    qed
  qed
  show "(fst (handle_webhook r s) = Response (args_get r ''hub.challenge'') 200 ''text/plain'')
            = (verified r s \<and> activation_saved s)"
  proof (cases "verified r s0")
    case False
    then show ?thesis using hv_not_verified[OF False] s0 hv by simp
  next
    case True
    show ?thesis
    proof (cases "activation_saved s0")
      case True
      then show ?thesis using hv_saved[OF \<open>verified r s0\<close> True] \<open>verified r s0\<close> s0 hv by simp
    next
      case False
      then show ?thesis using hv_not_saved[OF True False] s0 hv by auto
    qed
  qed
  show "if verified r s \<and> \<not> activation_saved s
            then (\<exists>m. fst (handle_webhook r s) = Envelope (Error m))
                 \<and> status_code (snd (handle_webhook r s)) = Some 500
            else True"
  proof (cases "verified r s0 \<and> \<not> activation_saved s0")
    case False
    then have "\<not> (verified r s \<and> \<not> activation_saved s)" using s0(1,2) by simp
    then show ?thesis by auto
  next
    case True
    then obtain e where "x = Inl e" using hv_not_saved[of r s0] fx by auto
    moreover have "verified r s \<and> \<not> activation_saved s" using True s0(1,2) by simp
    ultimately show ?thesis using s0(3) hv by (simp add: set_status_def)
  qed
qed

theorem challenge_echoed_iff_witness:
  "verified subscribe_request example_site \<and> activation_saved example_site
   \<and> req_method subscribe_request = ''GET''
   \<and> \<not> verified wrong_token_request example_site
   \<and> verified subscribe_request site_incomplete_settings
   \<and> \<not> activation_saved site_incomplete_settings
   \<and> fst (handle_verification subscribe_request example_site) =
        Inr (Response (Some ''1158201444'') 200 ''text/plain'')
   \<and> fst (handle_webhook subscribe_request example_site) =
        Response (Some ''1158201444'') 200 ''text/plain''
   \<and> webhook_is_active (the_settings (snd (handle_verification subscribe_request example_site))) = 1
   \<and> fst (handle_verification wrong_token_request example_site) = Inr NoneVal
   \<and> \<not> is_response (fst (handle_webhook wrong_token_request example_site))
   \<and> \<not> is_response (fst (handle_webhook subscribe_request site_incomplete_settings))
   \<and> status_code (snd (handle_webhook subscribe_request site_incomplete_settings)) = Some 500"
proof -
  have g: "req_method subscribe_request = ''GET''" "req_method wrong_token_request = ''GET''"
    by (simp_all add: request_defs)
  have c: "args_get subscribe_request ''hub.challenge'' = Some ''1158201444''"
    by (simp add: request_defs)
  show ?thesis
    using challenge_echoed_iff[of subscribe_request example_site]
      challenge_echoed_iff[of wrong_token_request example_site]
      challenge_echoed_iff[of subscribe_request site_incomplete_settings]
      example_verified g c
    by simp
qed

text \<open>
  C1 as stated does not hold where the stored settings are enabled without an app id:
  the three conditions hold, yet \<^verbatim>\<open>settings.save\<close> runs \<^verbatim>\<open>validate\<close>, which throws,
  and the endpoint answers 500 instead of echoing the challenge.
\<close>

theorem handshake_fails_on_incomplete_settings:
  "enabled (the_settings site_incomplete_settings) \<noteq> 0
   \<and> webhook_verify_token (the_settings site_incomplete_settings) =
        args_get subscribe_request ''hub.verify_token''
   \<and> args_get subscribe_request ''hub.mode'' = Some ''subscribe''
   \<and> fst (handle_verification subscribe_request site_incomplete_settings) =
        Inl (ValidationError ''App ID is required when Facebook Lead Ads is enabled'')
   \<and> fst (handle_webhook subscribe_request site_incomplete_settings) =
        Envelope (Error ''App ID is required when Facebook Lead Ads is enabled'')
   \<and> status_code (snd (handle_webhook subscribe_request site_incomplete_settings)) = Some 500"
proof -
  have a: "enabled (the_settings site_incomplete_settings) \<noteq> 0
   \<and> webhook_verify_token (the_settings site_incomplete_settings) =
        args_get subscribe_request ''hub.verify_token''
   \<and> args_get subscribe_request ''hub.mode'' = Some ''subscribe''"
    by (simp add: request_defs example_site_def example_settings_def site_incomplete_settings_def)
  have v: "fst (handle_verification subscribe_request s) =
        Inl (ValidationError ''App ID is required when Facebook Lead Ads is enabled'')"
    if "the_settings s = example_settings\<lparr>app_id := None\<rparr>" for s
    using that
    by (simp add: handle_verification_def Let_def save_settings_def settings_validate_def
        eff_defs request_defs example_settings_def)
  have b: "fst (handle_verification subscribe_request site_incomplete_settings) =
        Inl (ValidationError ''App ID is required when Facebook Lead Ads is enabled'')"
    by (rule v) (simp add: site_incomplete_settings_def)
  have g: "req_method subscribe_request = ''GET''" by (simp add: request_defs)
  from hw_get[OF g, of site_incomplete_settings] obtain s0 where
    s0: "handle_webhook subscribe_request site_incomplete_settings =
         (case handle_verification subscribe_request s0 of
            (Inr v, s8) \<Rightarrow> (v, s8)
          | (Inl e, s8) \<Rightarrow>
             (Envelope (Error (str_exc e)),
              set_status 500
                (log_both ERROR [Lit ''Facebook Webhook Error: '', Lit (str_exc e)] s8)))"
      and t0: "the_settings s0 = the_settings site_incomplete_settings"
    by blast
  have b0: "fst (handle_verification subscribe_request s0) =
        Inl (ValidationError ''App ID is required when Facebook Lead Ads is enabled'')"
    by (rule v) (simp add: t0 site_incomplete_settings_def)
  obtain s8 where hv: "handle_verification subscribe_request s0 =
      (Inl (ValidationError ''App ID is required when Facebook Lead Ads is enabled''), s8)"
    using b0 by (cases "handle_verification subscribe_request s0") simp
  show ?thesis using a b s0 hv by (simp add: set_status_def)
qed

section \<open>Validation of the settings\<close>

text \<open>
  C9, as the code has it. Every save of the settings that runs validation fails before
  anything is written when the enabled flag is set and the app id is empty, or the app id
  is present and the app secret is empty, with the message of the missing field;
  \<^verbatim>\<open>validate\<close> accepts exactly the settings that are not enabled or carry both; and
  with the flag unset the save writes the document whatever the two fields hold.
\<close>

theorem settings_validation_before_save:
  "(enabled d \<noteq> 0 \<and> \<not> truthy_str (app_id d)
      \<longrightarrow> save_settings False d s =
            Inl (ValidationError ''App ID is required when Facebook Lead Ads is enabled''))
   \<and> (enabled d \<noteq> 0 \<and> truthy_str (app_id d) \<and> \<not> truthy_str (app_secret d)
      \<longrightarrow> save_settings False d s =
            Inl (ValidationError ''App Secret is required when Facebook Lead Ads is enabled''))
   \<and> (settings_validate d = None)
        = (enabled d = 0 \<or> (truthy_str (app_id d) \<and> truthy_str (app_secret d)))
   \<and> (enabled d = 0 \<and> db_error s (SaveSettings d) = None
      \<longrightarrow> save_settings False d s = Inr (s\<lparr>the_settings := d\<rparr>))"
  by (simp add: save_settings_def settings_validate_def)

theorem settings_validation_before_save_witness:
  "enabled (example_settings\<lparr>app_id := None\<rparr>) \<noteq> 0
   \<and> \<not> truthy_str (app_id (example_settings\<lparr>app_id := None\<rparr>))
   \<and> save_settings False (example_settings\<lparr>app_id := None\<rparr>) example_site =
        Inl (ValidationError ''App ID is required when Facebook Lead Ads is enabled'')
   \<and> enabled (example_settings\<lparr>app_secret := Some []\<rparr>) \<noteq> 0
   \<and> truthy_str (app_id (example_settings\<lparr>app_secret := Some []\<rparr>))
   \<and> \<not> truthy_str (app_secret (example_settings\<lparr>app_secret := Some []\<rparr>))
   \<and> save_settings False (example_settings\<lparr>app_secret := Some []\<rparr>) example_site =
        Inl (ValidationError ''App Secret is required when Facebook Lead Ads is enabled'')
   \<and> enabled (example_settings\<lparr>enabled := 0, app_id := None\<rparr>) = 0
   \<and> db_error example_site (SaveSettings (example_settings\<lparr>enabled := 0, app_id := None\<rparr>)) = None
   \<and> save_settings False (example_settings\<lparr>enabled := 0, app_id := None\<rparr>) example_site =
        Inr (example_site\<lparr>the_settings := example_settings\<lparr>enabled := 0, app_id := None\<rparr>\<rparr>)"
proof -
  have a: "enabled (example_settings\<lparr>app_id := None\<rparr>) \<noteq> 0
     \<and> \<not> truthy_str (app_id (example_settings\<lparr>app_id := None\<rparr>))"
    by (simp add: example_settings_def)
  have b: "enabled (example_settings\<lparr>app_secret := Some []\<rparr>) \<noteq> 0
     \<and> truthy_str (app_id (example_settings\<lparr>app_secret := Some []\<rparr>))
     \<and> \<not> truthy_str (app_secret (example_settings\<lparr>app_secret := Some []\<rparr>))"
    by (simp add: example_settings_def)
  have c: "enabled (example_settings\<lparr>enabled := 0, app_id := None\<rparr>) = 0
     \<and> db_error example_site (SaveSettings (example_settings\<lparr>enabled := 0, app_id := None\<rparr>)) = None"
    by (simp add: example_site_def)
  show ?thesis
    using settings_validation_before_save[of "example_settings\<lparr>app_id := None\<rparr>" example_site]
      settings_validation_before_save[of "example_settings\<lparr>app_secret := Some []\<rparr>" example_site]
      settings_validation_before_save[of "example_settings\<lparr>enabled := 0, app_id := None\<rparr>" example_site]
      a b c
    by simp
qed

text \<open>
  C9 as stated speaks of every save. The save inside \<^verbatim>\<open>set_access_token\<close> sets
  \<^verbatim>\<open>flags.ignore_validate\<close>: it stores enabled settings without an app id.
\<close>

theorem set_access_token_skips_validation:
  "enabled (example_settings\<lparr>app_id := None\<rparr>) \<noteq> 0
   \<and> \<not> truthy_str (app_id (example_settings\<lparr>app_id := None\<rparr>))
   \<and> set_access_token (Some ''EAAB'') None (example_settings\<lparr>app_id := None\<rparr>) example_site =
        Inr (example_site\<lparr>the_settings :=
               example_settings\<lparr>app_id := None, access_token := Some ''EAAB''\<rparr>\<rparr>)"
  by (simp add: set_access_token_def save_settings_def example_settings_def example_site_def)

section \<open>Subscribing a webhook\<close>

text \<open>
  C7. When \<^verbatim>\<open>subscribe_webhook\<close> is invoked and the subscription call, the page
  install or the save raises \<open>e\<close>, the caller gets the user-facing error
  \<^verbatim>\<open>Failed to subscribe webhook: e\<close> and the stored webhook document is as it was:
  it is not marked active and no subscription id is stored. When the first two steps
  fail the document in memory is untouched as well. Only when every step succeeds is the
  document stored with \<^verbatim>\<open>is_active = 1\<close> and the \<^verbatim>\<open>id\<close> of the subscription
  returned. In general: the call either succeeds and the stored document is the marked
  one, or raises that error, records it in the error log and leaves the stored document.
\<close>

theorem subscribe_failure_leaves_unsubscribed:
  "(api_create s (CreateSubscription (app_id (the_settings s)) (wh_webhook_url d)
                    (wh_verify_token d) [''leadgen''] True) = Inl e
      \<longrightarrow> fst (subscribe_webhook d s) =
            Some (ValidationError (''Failed to subscribe webhook: '' @ str_exc e))
        \<and> fst (snd (subscribe_webhook d s)) = d
        \<and> stored_webhook (snd (snd (subscribe_webhook d s))) = stored_webhook s)
   \<and> (api_create s (CreateSubscription (app_id (the_settings s)) (wh_webhook_url d)
                    (wh_verify_token d) [''leadgen''] True) = Inr sub
      \<and> api_install s (InstallApp (wh_page_id d) ''leadgen'') = Some e
      \<longrightarrow> fst (subscribe_webhook d s) =
            Some (ValidationError (''Failed to subscribe webhook: '' @ str_exc e))
        \<and> fst (snd (subscribe_webhook d s)) = d
        \<and> stored_webhook (snd (snd (subscribe_webhook d s))) = stored_webhook s)
   \<and> (api_create s (CreateSubscription (app_id (the_settings s)) (wh_webhook_url d)
                    (wh_verify_token d) [''leadgen''] True) = Inr sub
      \<and> api_install s (InstallApp (wh_page_id d) ''leadgen'') = None
      \<and> py_get sub ''id'' JNull = Inr sid
      \<and> save_webhook (d\<lparr>wh_is_active := 1, wh_subscription_id := sid\<rparr>) s = Inl e
      \<longrightarrow> fst (subscribe_webhook d s) =
            Some (ValidationError (''Failed to subscribe webhook: '' @ str_exc e))
        \<and> stored_webhook (snd (snd (subscribe_webhook d s))) = stored_webhook s)
   \<and> (api_create s (CreateSubscription (app_id (the_settings s)) (wh_webhook_url d)
                    (wh_verify_token d) [''leadgen''] True) = Inr sub
      \<and> api_install s (InstallApp (wh_page_id d) ''leadgen'') = None
      \<and> py_get sub ''id'' JNull = Inr sid
      \<and> save_webhook (d\<lparr>wh_is_active := 1, wh_subscription_id := sid\<rparr>) s = Inr s'
      \<longrightarrow> fst (subscribe_webhook d s) = None
        \<and> fst (snd (subscribe_webhook d s)) = d\<lparr>wh_is_active := 1, wh_subscription_id := sid\<rparr>
        \<and> stored_webhook (snd (snd (subscribe_webhook d s))) =
            Some (d\<lparr>wh_is_active := 1, wh_subscription_id := sid\<rparr>))
   \<and> (case fst (subscribe_webhook d s) of
         None \<Rightarrow>
           (\<exists>sid. stored_webhook (snd (snd (subscribe_webhook d s))) =
                    Some (d\<lparr>wh_is_active := 1, wh_subscription_id := sid\<rparr>))
       | Some x \<Rightarrow>
           (\<exists>m. x = ValidationError (''Failed to subscribe webhook: '' @ m))
           \<and> stored_webhook (snd (snd (subscribe_webhook d s))) = stored_webhook s
           \<and> error_log (snd (snd (subscribe_webhook d s))) =
               error_log s @ [''Facebook Webhook Subscription Error''])"
  by (auto simp add: subscribe_webhook_def subscribe_failed_def Let_def save_webhook_call_api
      split: sum.splits option.splits dest!: save_webhook_stored)

theorem subscribe_failure_leaves_unsubscribed_witness:
  "api_create (example_site\<lparr>api_create := (\<lambda>c. Inl (OtherError ''Invalid OAuth access token''))\<rparr>)
      (CreateSubscription (Some ''1234'') (Some ''https://example.com/hook'')
         (Some ''0123456789abcdef0123456789abcdef'') [''leadgen''] True)
     = Inl (OtherError ''Invalid OAuth access token'')
   \<and> fst (subscribe_webhook example_webhook
             (example_site\<lparr>api_create := (\<lambda>c. Inl (OtherError ''Invalid OAuth access token''))\<rparr>))
     = Some (ValidationError ''Failed to subscribe webhook: Invalid OAuth access token'')
   \<and> api_install site_failing_install (InstallApp (Some ''P1'') ''leadgen'')
     = Some (OtherError ''(#200) Permissions error'')
   \<and> fst (subscribe_webhook example_webhook site_failing_install)
     = Some (ValidationError ''Failed to subscribe webhook: (#200) Permissions error'')
   \<and> fst (snd (subscribe_webhook example_webhook site_failing_install)) = example_webhook
   \<and> stored_webhook (snd (snd (subscribe_webhook example_webhook site_failing_install))) = None
   \<and> save_webhook (example_webhook\<lparr>wh_page_id := None, wh_is_active := 1,
                                    wh_subscription_id := JStr ''sub-1''\<rparr>) example_site
     = Inl (ValidationError ''Page ID is required'')
   \<and> fst (subscribe_webhook (example_webhook\<lparr>wh_page_id := None\<rparr>) example_site)
     = Some (ValidationError ''Failed to subscribe webhook: Page ID is required'')
   \<and> stored_webhook (snd (snd (subscribe_webhook (example_webhook\<lparr>wh_page_id := None\<rparr>) example_site)))
     = None
   \<and> fst (subscribe_webhook example_webhook example_site) = None
   \<and> stored_webhook (snd (snd (subscribe_webhook example_webhook example_site)))
     = Some (example_webhook\<lparr>wh_is_active := 1, wh_subscription_id := JStr ''sub-1''\<rparr>)"
proof -
  let ?s1 = "example_site\<lparr>api_create := (\<lambda>c. Inl (OtherError ''Invalid OAuth access token''))\<rparr>"
  let ?c1 = "CreateSubscription (Some ''1234'') (Some ''https://example.com/hook'')
         (Some ''0123456789abcdef0123456789abcdef'') [''leadgen''] True"
  let ?sub = "JObj [(''id'', JStr ''sub-1'')]"
  let ?d3 = "example_webhook\<lparr>wh_page_id := None\<rparr>"
  have f: "app_id (the_settings example_site) = Some ''1234''"
    "app_id (the_settings ?s1) = Some ''1234''"
    "app_id (the_settings site_failing_install) = Some ''1234''"
    "wh_webhook_url example_webhook = Some ''https://example.com/hook''"
    "wh_verify_token example_webhook = Some ''0123456789abcdef0123456789abcdef''"
    "wh_page_id example_webhook = Some ''P1''"
    "wh_webhook_url ?d3 = Some ''https://example.com/hook''"
    "wh_verify_token ?d3 = Some ''0123456789abcdef0123456789abcdef''"
    "wh_page_id ?d3 = None"
    "stored_webhook example_site = None" "stored_webhook site_failing_install = None"
    by (simp_all add: example_site_def example_settings_def example_webhook_def
        site_failing_install_def)
  have a: "api_create ?s1 ?c1 = Inl (OtherError ''Invalid OAuth access token'')" by simp
  have b: "api_create site_failing_install ?c1 = Inr ?sub
      \<and> api_install site_failing_install (InstallApp (Some ''P1'') ''leadgen'')
          = Some (OtherError ''(#200) Permissions error'')"
    by (simp add: site_failing_install_def example_site_def)
  have c: "api_create example_site ?c1 = Inr ?sub
      \<and> api_install example_site (InstallApp None ''leadgen'') = None
      \<and> api_install example_site (InstallApp (Some ''P1'') ''leadgen'') = None
      \<and> py_get ?sub ''id'' JNull = Inr (JStr ''sub-1'')"
    by (simp add: example_site_def py_get_def)
  have sv: "save_webhook (?d3\<lparr>wh_is_active := 1, wh_subscription_id := JStr ''sub-1''\<rparr>) example_site
      = Inl (ValidationError ''Page ID is required'')"
    by (simp add: save_webhook_def webhook_validate_def example_webhook_def example_site_def
        example_settings_def)
  have ok: "save_webhook (example_webhook\<lparr>wh_is_active := 1, wh_subscription_id := JStr ''sub-1''\<rparr>)
        example_site
      = Inr (example_site\<lparr>stored_webhook :=
               Some (example_webhook\<lparr>wh_is_active := 1, wh_subscription_id := JStr ''sub-1''\<rparr>)\<rparr>)"
    by (simp add: save_webhook_def webhook_validate_def example_webhook_def example_site_def
        example_settings_def)
  show ?thesis
    using subscribe_failure_leaves_unsubscribed[where s="?s1" and d=example_webhook
        and e="OtherError ''Invalid OAuth access token''"]
      subscribe_failure_leaves_unsubscribed[where s=site_failing_install and d=example_webhook
        and sub="?sub" and e="OtherError ''(#200) Permissions error''"]
      subscribe_failure_leaves_unsubscribed[where s=example_site and d="?d3" and sub="?sub"
        and e="ValidationError ''Page ID is required''" and sid="JStr ''sub-1''"]
      subscribe_failure_leaves_unsubscribed[where s=example_site and d=example_webhook
        and sub="?sub" and sid="JStr ''sub-1''"
        and s'="example_site\<lparr>stored_webhook :=
               Some (example_webhook\<lparr>wh_is_active := 1, wh_subscription_id := JStr ''sub-1''\<rparr>)\<rparr>"]
      f a b c sv ok
    by simp
qed

section \<open>The verify token of a webhook\<close>

text \<open>
  C8. \<^verbatim>\<open>before_insert\<close> gives the document the verify token
  \<^verbatim>\<open>generate_hash(length=32)\<close>, and a created document carries it. An update of an
  existing document, whatever it changes and whether or not it subscribes or
  unsubscribes, leaves the token of the document as it is; if the document saved carries
  the stored token, the stored token is the same afterwards; and the update sends a
  subscription call exactly when it is saved with the enabled flag newly set, with that
  same token. After an update the stored document is the one stored before or carries
  the token of the document saved: no update stores a token of its own making.
\<close>

theorem verify_token_set_only_at_creation:
  "wh_verify_token (before_insert d s) = Some (generate_hash s 32)
   \<and> wh_verify_token (fst (snd (insert_webhook d s))) = Some (generate_hash s 32)
   \<and> wh_verify_token (fst (snd (update_webhook d s))) = wh_verify_token d
   \<and> (stored_webhook s = Some d0 \<and> wh_verify_token d = wh_verify_token d0
      \<longrightarrow> map_option wh_verify_token (stored_webhook (snd (snd (update_webhook d s))))
            = Some (wh_verify_token d0))
   \<and> subscription_tokens (api_calls (snd (snd (update_webhook d s)))) =
       subscription_tokens (api_calls s) @
         (if (\<exists>s1. save_webhook d s = Inr s1) \<and> has_value_changed_enabled d (stored_webhook s)
             \<and> wh_enabled d \<noteq> 0
          then [wh_verify_token d] else [])
   \<and> (stored_webhook (snd (snd (update_webhook d s))) = stored_webhook s
      \<or> map_option wh_verify_token (stored_webhook (snd (snd (update_webhook d s))))
          = Some (wh_verify_token d))"
proof (intro conjI impI)
  show "stored_webhook (snd (snd (update_webhook d s))) = stored_webhook s
      \<or> map_option wh_verify_token (stored_webhook (snd (snd (update_webhook d s))))
          = Some (wh_verify_token d)"
    by (rule update_webhook_stored_token)
  show "wh_verify_token (before_insert d s) = Some (generate_hash s 32)"
    by (simp add: before_insert_def)
  have an: "wh_verify_token (autoname x) = wh_verify_token x" for x
    by (simp add: autoname_def)
  show "wh_verify_token (fst (snd (insert_webhook d s))) = Some (generate_hash s 32)"
    using on_update_token[of "autoname (before_insert d s)" None]
    by (simp add: insert_webhook_def Let_def an before_insert_def split: sum.splits)
  show "wh_verify_token (fst (snd (update_webhook d s))) = wh_verify_token d"
    using on_update_token[of d "stored_webhook s"]
    by (simp add: update_webhook_def split: sum.splits)
  show "subscription_tokens (api_calls (snd (snd (update_webhook d s)))) =
       subscription_tokens (api_calls s) @
         (if (\<exists>s1. save_webhook d s = Inr s1) \<and> has_value_changed_enabled d (stored_webhook s)
             \<and> wh_enabled d \<noteq> 0
          then [wh_verify_token d] else [])"
  proof (cases "save_webhook d s")
    case (Inl e)
    then show ?thesis by (simp add: update_webhook_def)
  next
    case (Inr s1)
    then have "api_calls s1 = api_calls s" by (auto dest!: save_webhook_stored)
    then show ?thesis using Inr on_update_token[of d "stored_webhook s" s1]
      by (simp add: update_webhook_def)
  qed
next
  assume h: "stored_webhook s = Some d0 \<and> wh_verify_token d = wh_verify_token d0"
  show "map_option wh_verify_token (stored_webhook (snd (snd (update_webhook d s))))
            = Some (wh_verify_token d0)"
  proof (cases "save_webhook d s")
    case (Inl e)
    then show ?thesis using h by (simp add: update_webhook_def)
  next
    case (Inr s1)
    then have "stored_webhook s1 = Some d" by (auto dest!: save_webhook_stored)
    then show ?thesis using Inr h on_update_token[of d "stored_webhook s" s1]
      by (auto simp add: update_webhook_def)
  qed
qed

theorem verify_token_set_only_at_creation_witness:
  "stored_webhook site_disabled_webhook = Some (example_webhook\<lparr>wh_enabled := 0\<rparr>)
   \<and> wh_verify_token example_webhook = wh_verify_token (example_webhook\<lparr>wh_enabled := 0\<rparr>)
   \<and> map_option wh_verify_token
        (stored_webhook (snd (snd (update_webhook example_webhook site_disabled_webhook))))
      = Some (Some ''0123456789abcdef0123456789abcdef'')
   \<and> subscription_tokens
        (api_calls (snd (snd (update_webhook example_webhook site_disabled_webhook))))
      = [Some ''0123456789abcdef0123456789abcdef'']
   \<and> wh_verify_token (fst (snd (insert_webhook example_webhook example_site)))
      = Some (generate_hash example_site 32)"
proof -
  note t1 = verify_token_set_only_at_creation[of example_webhook site_disabled_webhook
        "example_webhook\<lparr>wh_enabled := 0\<rparr>"]
  note t2 = verify_token_set_only_at_creation[of example_webhook example_site example_webhook]
  have c3: "map_option wh_verify_token
        (stored_webhook (snd (snd (update_webhook example_webhook site_disabled_webhook))))
      = Some (wh_verify_token (example_webhook\<lparr>wh_enabled := 0\<rparr>))"
    using t1 disabled_webhook_stored by blast
  have c4: "subscription_tokens
        (api_calls (snd (snd (update_webhook example_webhook site_disabled_webhook))))
      = subscription_tokens (api_calls site_disabled_webhook) @ [wh_verify_token example_webhook]"
    using t1 disabled_webhook_saves disabled_webhook_changed by presburger
  have c5: "wh_verify_token (fst (snd (insert_webhook example_webhook example_site)))
      = Some (generate_hash example_site 32)"
    using t2 by blast
  show ?thesis using disabled_webhook_stored c3 c4 c5 disabled_webhook_facts by simp
qed

section \<open>Further properties of the endpoint\<close>

text \<open>
  X1. The table of leads never holds two records with the same external id: if the ids
  stored are pairwise distinct before \<^verbatim>\<open>handle_lead_event\<close>, they are so after it,
  for every body, well-formed or not, and whatever the store does.
\<close>

theorem one_lead_per_id_invariant:
  assumes "distinct (map facebook_lead_id (leads s))"
  shows "distinct (map facebook_lead_id (leads (snd (handle_lead_event body s))))"
proof -
  have m: "leads (meta_logger l m s) = leads s" for l m s by (simp add: meta_logger_def)
  have f: "leads (snd (lead_event_failed e s)) = leads s" for e s
    by (simp add: lead_event_failed_def eff_defs)
  have k: "distinct (map facebook_lead_id (leads (snd
      (case process_entries es s0 of
         (Some e, s2) \<Rightarrow> lead_event_failed e s2
       | (None, s2) \<Rightarrow> (Success, set_status 200 (meta_logger INFO msg s2))))))"
    if "distinct (map facebook_lead_id (leads s0))" for es s0 msg
    using process_entries_distinct[OF that, of es]
    by (cases "process_entries es s0"; cases "fst (process_entries es s0)")
      (simp_all add: f m set_status_def)
  show ?thesis using assms
    by (auto simp add: handle_lead_event_def Let_def f m set_status_def intro!: k
        split: sum.splits)
qed


theorem one_lead_per_id_invariant_witness:
  "distinct (map facebook_lead_id (leads example_site))
   \<and> distinct (map facebook_lead_id
        (leads (snd (handle_lead_event (Inr two_leads_payload) example_site))))"
proof -
  have a: "distinct (map facebook_lead_id (leads example_site))"
    by (simp add: example_site_ok)
  show ?thesis using a one_lead_per_id_invariant[OF a, of "Inr two_leads_payload"] by simp
qed

text \<open>
  X2. A request whose method is neither GET nor POST is answered with status 500 and
  \<^verbatim>\<open>{"error": "Unsupported HTTP method"}\<close>; leads and settings are untouched.
\<close>

theorem unsupported_method_is_500:
  assumes "req_method r \<noteq> ''GET''" and "req_method r \<noteq> ''POST''"
  shows "fst (handle_webhook r s) = Envelope (Error ''Unsupported HTTP method'')
     \<and> status_code (snd (handle_webhook r s)) = Some 500
     \<and> leads (snd (handle_webhook r s)) = leads s
     \<and> the_settings (snd (handle_webhook r s)) = the_settings s"
  using assms by (simp add: handle_webhook_def Let_def eff_defs)

theorem unsupported_method_is_500_witness:
  "req_method (subscribe_request\<lparr>req_method := ''PUT''\<rparr>) \<noteq> ''GET''
   \<and> req_method (subscribe_request\<lparr>req_method := ''PUT''\<rparr>) \<noteq> ''POST''
   \<and> fst (handle_webhook (subscribe_request\<lparr>req_method := ''PUT''\<rparr>) example_site)
        = Envelope (Error ''Unsupported HTTP method'')"
proof -
  have a: "req_method (subscribe_request\<lparr>req_method := ''PUT''\<rparr>) \<noteq> ''GET''"
    and b: "req_method (subscribe_request\<lparr>req_method := ''PUT''\<rparr>) \<noteq> ''POST''"
    by simp_all
  show ?thesis using a b unsupported_method_is_500[OF a b, of example_site] by simp
qed

text \<open>
  X3. Every parsed body that Python counts as false (\<^verbatim>\<open>null\<close>, \<^verbatim>\<open>{}\<close>,
  \<^verbatim>\<open>[]\<close>, \<^verbatim>\<open>0\<close>, \<^verbatim>\<open>false\<close>, \<^verbatim>\<open>""\<close>) is answered with status 400 and
  \<^verbatim>\<open>{"error": "Invalid payload"}\<close>.
\<close>

theorem falsy_payload_is_400:
  assumes "\<not> truthy payload"
  shows "fst (handle_lead_event (Inr payload) s) = Error ''Invalid payload''
     \<and> status_code (snd (handle_lead_event (Inr payload) s)) = Some 400
     \<and> leads (snd (handle_lead_event (Inr payload) s)) = leads s
     \<and> realtime (snd (handle_lead_event (Inr payload) s)) = realtime s"
  using assms by (simp add: handle_lead_event_def Let_def eff_defs)

theorem falsy_payload_is_400_witness:
  "\<not> truthy (JObj []) \<and> \<not> truthy (JArr [])
   \<and> fst (handle_lead_event (Inr (JObj [])) example_site) = Error ''Invalid payload''
   \<and> fst (handle_lead_event (Inr (JArr [])) example_site) = Error ''Invalid payload''"
proof -
  have a: "\<not> truthy (JObj [])" and b: "\<not> truthy (JArr [])" by simp_all
  show ?thesis
    using a b falsy_payload_is_400[OF a, of example_site] falsy_payload_is_400[OF b, of example_site]
    by simp
qed

text \<open>
  X4. A parsed body that counts as true and is not an object (a non-empty list or
  string, a non-zero number, \<^verbatim>\<open>true\<close>) has no \<^verbatim>\<open>get\<close>: the handler answers 500
  with the message of the \<^verbatim>\<open>AttributeError\<close>, and nothing is stored or published.
\<close>

theorem non_object_payload_is_500:
  assumes "truthy payload" and "\<not> is_dict payload"
  shows "fst (handle_lead_event (Inr payload) s) =
           Error (quote @ type_name payload @ quote @ '' object has no attribute '' @ quote @ ''get'' @ quote)
     \<and> status_code (snd (handle_lead_event (Inr payload) s)) = Some 500
     \<and> leads (snd (handle_lead_event (Inr payload) s)) = leads s
     \<and> realtime (snd (handle_lead_event (Inr payload) s)) = realtime s"
  using assms
  by (cases payload)
    (simp_all add: handle_lead_event_def Let_def lead_event_failed_def py_get_def is_dict_def eff_defs)

theorem non_object_payload_is_500_witness:
  "truthy (JArr [JInt 1]) \<and> \<not> is_dict (JArr [JInt 1])
   \<and> fst (handle_lead_event (Inr (JArr [JInt 1])) example_site) =
        Error (quote @ ''list'' @ quote @ '' object has no attribute '' @ quote @ ''get'' @ quote)
   \<and> status_code (snd (handle_lead_event (Inr (JArr [JInt 1])) example_site)) = Some 500"
proof -
  have a: "truthy (JArr [JInt 1])" and b: "\<not> is_dict (JArr [JInt 1])"
    by (simp_all add: is_dict_def)
  show ?thesis using a b non_object_payload_is_500[OF a b, of example_site] by simp
qed

text \<open>
  X5. \<^verbatim>\<open>set_access_token\<close> stores no expiry when the expiry counts as false: with 0
  seconds or an empty string it does what it does without an expiry. When the time
  after \<open>n\<close> seconds cannot be computed, the exception is raised and nothing is saved.
\<close>

theorem set_access_token_expiry:
  "set_access_token tok (Some (Seconds 0)) d s = set_access_token tok None d s
   \<and> set_access_token tok (Some (Text [])) d s = set_access_token tok None d s
   \<and> (n \<noteq> 0 \<and> expiry_after s n = Inl e
      \<longrightarrow> set_access_token tok (Some (Seconds n)) d s = Inl e)
   \<and> (n \<noteq> 0 \<and> expiry_after s n = Inr w \<and> db_error s = (\<lambda>x. None)
      \<longrightarrow> set_access_token tok (Some (Seconds n)) d s =
            Inr (s\<lparr>the_settings := d\<lparr>access_token := tok, token_expiry := Some w\<rparr>\<rparr>))"
  by (simp add: set_access_token_def save_settings_def)

theorem set_access_token_expiry_witness:
  "(86400000000000::int) \<noteq> 0
   \<and> expiry_after (example_site\<lparr>expiry_after := (\<lambda>n. Inl (OverflowError ''date value out of range''))\<rparr>)
        86400000000000 = Inl (OverflowError ''date value out of range'')
   \<and> set_access_token (Some ''EAAB'') (Some (Seconds 86400000000000)) example_settings
        (example_site\<lparr>expiry_after := (\<lambda>n. Inl (OverflowError ''date value out of range''))\<rparr>)
      = Inl (OverflowError ''date value out of range'')
   \<and> (3600::int) \<noteq> 0
   \<and> expiry_after example_site 3600 = Inr ''2025-03-02 00:00:00''
   \<and> db_error example_site = (\<lambda>x. None)
   \<and> set_access_token (Some ''EAAB'') (Some (Seconds 3600)) example_settings example_site
      = Inr (example_site\<lparr>the_settings :=
               example_settings\<lparr>access_token := Some ''EAAB'',
                                 token_expiry := Some ''2025-03-02 00:00:00''\<rparr>\<rparr>)"
proof -
  let ?s = "example_site\<lparr>expiry_after := (\<lambda>n. Inl (OverflowError ''date value out of range''))\<rparr>"
  have a: "(86400000000000::int) \<noteq> 0
      \<and> expiry_after ?s 86400000000000 = Inl (OverflowError ''date value out of range'')"
    by simp
  have b: "(3600::int) \<noteq> 0 \<and> expiry_after example_site 3600 = Inr ''2025-03-02 00:00:00''
      \<and> db_error example_site = (\<lambda>x. None)"
    by (simp add: example_site_def)
  have c1: "set_access_token (Some ''EAAB'') (Some (Seconds 86400000000000)) example_settings ?s
      = Inl (OverflowError ''date value out of range'')"
    using set_access_token_expiry[where n=86400000000000 and s="?s"
        and e="OverflowError ''date value out of range''" and tok="Some ''EAAB''"
        and d=example_settings and w="[]"] a
    by blast
  have c2: "set_access_token (Some ''EAAB'') (Some (Seconds 3600)) example_settings example_site
      = Inr (example_site\<lparr>the_settings :=
               example_settings\<lparr>access_token := Some ''EAAB'',
                                 token_expiry := Some ''2025-03-02 00:00:00''\<rparr>\<rparr>)"
    using set_access_token_expiry[where n=3600 and s=example_site
        and e="OtherError []" and tok="Some ''EAAB''"
        and d=example_settings and w="''2025-03-02 00:00:00''"] b
    by blast
  show ?thesis using a b c1 c2 by blast
qed

end
